theory Spec2Isabelle
  imports Complex_Main "HOL-Library.Sublist"
begin

section \<open>Strings\<close>

text \<open>
  A JavaScript string is modelled as a \<^typ>\<open>string\<close>: one \<^typ>\<open>char\<close> per
  UTF-16 code unit, so the model covers the strings whose code units are below 256
  (\<open>length\<close> is then JavaScript's \<open>.length\<close>). A value of type
  \<open>string | undefined | null\<close> is a \<^typ>\<open>string option\<close>; an optional field
  \<open>f?: T\<close> of an interface is a field of type \<open>T option\<close>.
\<close>

text \<open>
  \<open>subject.replace(/pat/g, rep)\<close> for a pattern that is a literal, non-empty sequence of
  characters and a replacement without \<open>$\<close>: the subject is scanned from the left,
  every match is replaced and the scan resumes after the match, so the replacement is
  never scanned again by the same call.
\<close>

fun replace_g :: "string \<Rightarrow> string \<Rightarrow> string \<Rightarrow> string" where
  "replace_g pat rep [] = []"
| "replace_g pat rep (c # cs) =
     (if pat \<noteq> [] \<and> prefix pat (c # cs)
      then rep @ replace_g pat rep (drop (length pat) (c # cs))
      else c # replace_g pat rep cs)"

text \<open>\<open>s.includes(pat)\<close>: \<open>pat\<close> occurs in \<open>s\<close> as a contiguous run.\<close>

fun str_includes :: "string \<Rightarrow> string \<Rightarrow> bool" where
  "str_includes [] pat = (pat = [])"
| "str_includes (c # cs) pat = (prefix pat (c # cs) \<or> str_includes cs pat)"

section \<open>Entity Decoder\<close>

text \<open>
  \<^verbatim>\<open>
  const decodeHtmlEntities = (text: string | undefined | null): string => {
    if (!text) return '';
    return text
      .replace(/&amp;/g, '&')
      .replace(/&lt;/g, '<')
      .replace(/&gt;/g, '>')
      .replace(/&quot;/g, '"')
      .replace(/&#39;/g, "'")
      .replace(/&nbsp;/g, ' ');
  };
  \<close>
  The function is the same in both variants of the server.
\<close>

definition decodeHtmlEntities :: "string option \<Rightarrow> string" where
  \<open>decodeHtmlEntities text =
     (case text of
        None \<Rightarrow> []
      | Some t \<Rightarrow>
          if t = [] then []
          else replace_g ''&nbsp;'' '' ''
                (replace_g ''&#39;'' [CHR 0x27]
                  (replace_g ''&quot;'' [CHR 0x22]
                    (replace_g ''&gt;'' ''>''
                      (replace_g ''&lt;'' ''<''
                        (replace_g ''&amp;'' ''&'' t))))))\<close>

text \<open>
  The decoder as the specification words it: a table of six replacements, applied one
  after the other in the order of the table.
\<close>

definition entity_table :: "(string \<times> string) list" where
  "entity_table =
     [(''&amp;'', ''&''), (''&lt;'', ''<''), (''&gt;'', ''>''),
      (''&quot;'', [CHR 0x22]), (''&#39;'', [CHR 0x27]), (''&nbsp;'', '' '')]"

definition decode_spec :: "string option \<Rightarrow> string" where
  "decode_spec text =
     (case text of
        None \<Rightarrow> []
      | Some t \<Rightarrow> foldl (\<lambda>acc (pat, rep). replace_g pat rep acc) t entity_table)"

text \<open>A string holds none of the six entity sequences.\<close>

definition entity_free :: "string \<Rightarrow> bool" where
  "entity_free s =
     (\<not> str_includes s ''&amp;'' \<and> \<not> str_includes s ''&lt;'' \<and> \<not> str_includes s ''&gt;'' \<and>
      \<not> str_includes s ''&quot;'' \<and> \<not> str_includes s ''&#39;'' \<and> \<not> str_includes s ''&nbsp;'')"

section \<open>Raw transcript segments\<close>

text \<open>
  The interfaces of the source, one record each; a field \<open>f?: T\<close> is \<open>T option\<close>.
  The field \<open>text\<close> occurs in four interfaces, so every field carries the name of its
  interface as a prefix: \<open>run_text\<close> is \<open>TextRun.text\<close>, \<open>tsr_text\<close> is
  \<open>TranscriptSegmentRenderer.text\<close>, and so on.
\<close>

record TextRun =
  run_text :: string

record Snippet =
  snippet_text :: "string option"
  snippet_runs :: "TextRun list option"

record TranscriptSegmentRenderer =
  tsr_snippet :: "Snippet option"
  tsr_text :: "string option"
  tsr_runs :: "TextRun list option"
  tsr_start_ms :: "string option"
  tsr_end_ms :: "string option"

text \<open>The anonymous object type of \<open>CueRenderer.cue_renderer\<close>.\<close>

record Cue_renderer =
  cue_text :: "Snippet option"
  cue_start_offset_ms :: "string option"
  cue_duration_ms :: "string option"

record CueRenderer =
  cue_renderer :: "Cue_renderer option"

text \<open>The anonymous object type of \<open>CueGroupRenderer.cue_group_renderer\<close>.\<close>

record Cue_group_renderer =
  cues :: "CueRenderer list option"

text \<open>\<open>GenericSegment.text\<close> has type \<open>string | Snippet\<close>.\<close>

datatype text_field = TextString string | TextSnippet Snippet

text \<open>
  \<open>AnySegment\<close> is the union \<open>TranscriptSegmentRenderer | CueGroupRenderer | GenericSegment\<close>,
  and the code probes it for the keys \<open>transcript_segment_renderer\<close>,
  \<open>cue_group_renderer\<close>, \<open>text\<close>, \<open>runs\<close>, \<open>snippet\<close>, \<open>start_ms\<close>, \<open>end_ms\<close> and
  \<open>duration_ms\<close>. The record has one optional field for each key the code reads;
  \<open>None\<close> is a key that is absent (or \<open>undefined\<close>).
\<close>

record AnySegment =
  transcript_segment_renderer :: "TranscriptSegmentRenderer option"
  cue_group_renderer :: "Cue_group_renderer option"
  seg_text :: "text_field option"
  seg_runs :: "TextRun list option"
  seg_snippet :: "Snippet option"
  seg_start_ms :: "string option"
  seg_end_ms :: "string option"
  seg_duration_ms :: "string option"

text \<open>
  The handler hands the unwrapped renderer and the unwrapped cue to
  \<open>extractTextFromSegment\<close>, whose parameter is an \<open>AnySegment\<close>. The two functions
  below are those two uses of an object at the union type: the same keys with the
  same values, and no other key among those \<open>extractTextFromSegment\<close> reads.
\<close>

definition tsr_as_segment :: "TranscriptSegmentRenderer \<Rightarrow> AnySegment" where
  "tsr_as_segment tsr =
     \<lparr>transcript_segment_renderer = None, cue_group_renderer = None,
      seg_text = map_option TextString (tsr_text tsr), seg_runs = tsr_runs tsr,
      seg_snippet = tsr_snippet tsr, seg_start_ms = tsr_start_ms tsr,
      seg_end_ms = tsr_end_ms tsr, seg_duration_ms = None\<rparr>"

definition cue_as_segment :: "Cue_renderer \<Rightarrow> AnySegment" where
  "cue_as_segment cue =
     \<lparr>transcript_segment_renderer = None, cue_group_renderer = None,
      seg_text = map_option TextSnippet (cue_text cue), seg_runs = None,
      seg_snippet = None, seg_start_ms = None, seg_end_ms = None,
      seg_duration_ms = cue_duration_ms cue\<rparr>"

text \<open>\<open>runs.map(run => run.text).join('')\<close>\<close>

definition joinRuns :: "TextRun list \<Rightarrow> string" where
  "joinRuns runs = concat (map run_text runs)"

text \<open>
  \<open>if (x) return x;\<close> for an optional string \<open>x\<close>: the statement returns when the
  string is there and not empty. \<open>truthy_string x\<close> is \<open>Some\<close> of the returned value
  then, and \<open>None\<close> when control goes on.
\<close>

definition truthy_string :: "string option \<Rightarrow> string option" where
  "truthy_string x = (case x of None \<Rightarrow> None | Some t \<Rightarrow> if t = [] then None else Some t)"

text \<open>A sequence of \<open>if (...) return ...;\<close> statements: the first that returns wins.\<close>

fun first_return :: "'a option list \<Rightarrow> 'a option" where
  "first_return [] = None"
| "first_return (None # rest) = first_return rest"
| "first_return (Some v # rest) = Some v"

text \<open>\<open>segment.cue_group_renderer?.cues?.[0]?.cue_renderer\<close>\<close>

definition first_cue_renderer :: "AnySegment \<Rightarrow> Cue_renderer option" where
  "first_cue_renderer segment =
     (case cue_group_renderer segment of
        None \<Rightarrow> None
      | Some g \<Rightarrow>
          (case cues g of
             None \<Rightarrow> None
           | Some [] \<Rightarrow> None
           | Some (c # _) \<Rightarrow> cue_renderer c))"

text \<open>
  \<^verbatim>\<open>
  const extractTextFromSegment = (segment: AnySegment): string => {
    if (segment && 'transcript_segment_renderer' in segment && segment.transcript_segment_renderer) {
      const tsr = segment.transcript_segment_renderer as TranscriptSegmentRenderer;
      if (tsr.snippet?.text) return tsr.snippet.text;
      if (tsr.text) return tsr.text;
      if (tsr.snippet?.runs) return tsr.snippet.runs.map(run => run.text).join('');
      if (tsr.runs) return tsr.runs.map(run => run.text).join('');
    }
    if (segment && 'cue_group_renderer' in segment && segment.cue_group_renderer?.cues?.[0]?.cue_renderer) {
      const cue = segment.cue_group_renderer.cues[0].cue_renderer;
      if (cue.text?.text) return cue.text.text;
      if (cue.text?.runs) return cue.text.runs.map(run => run.text).join('');
    }
    if (segment && 'text' in segment && segment.text) {
      if (typeof segment.text === 'string') return segment.text;
      if (typeof segment.text === 'object') {
        const snippet = segment.text as Snippet;
        if (snippet.text) return snippet.text;
        if (snippet.runs) return snippet.runs.map(run => run.text).join('');
      }
    }
    if (segment && 'runs' in segment && Array.isArray(segment.runs)) {
      return (segment.runs as TextRun[]).map(run => run.text).join('');
    }
    if (segment && 'snippet' in segment && segment.snippet) {
      const snippet = segment.snippet as Snippet;
      if (snippet.text) return snippet.text;
      if (snippet.runs) return snippet.runs.map(run => run.text).join('');
    }
    return '';
  };
  \<close>
  One definition for each of the five blocks, in the order of the source; each lists
  the block's \<open>return\<close> statements in their order. An array is truthy also when it is
  empty, so a \<open>runs\<close> that is present returns.
\<close>

definition renderer_block :: "AnySegment \<Rightarrow> string option list" where
  "renderer_block segment =
     (case transcript_segment_renderer segment of
        None \<Rightarrow> []
      | Some tsr \<Rightarrow>
          [truthy_string (Option.bind (tsr_snippet tsr) snippet_text),
           truthy_string (tsr_text tsr),
           map_option joinRuns (Option.bind (tsr_snippet tsr) snippet_runs),
           map_option joinRuns (tsr_runs tsr)])"

definition cue_block :: "AnySegment \<Rightarrow> string option list" where
  "cue_block segment =
     (case first_cue_renderer segment of
        None \<Rightarrow> []
      | Some cue \<Rightarrow>
          [truthy_string (Option.bind (cue_text cue) snippet_text),
           map_option joinRuns (Option.bind (cue_text cue) snippet_runs)])"

definition text_block :: "AnySegment \<Rightarrow> string option list" where
  "text_block segment =
     (case seg_text segment of
        None \<Rightarrow> []
      | Some (TextString t) \<Rightarrow> [truthy_string (Some t)]
      | Some (TextSnippet snippet) \<Rightarrow>
          [truthy_string (snippet_text snippet), map_option joinRuns (snippet_runs snippet)])"

definition runs_block :: "AnySegment \<Rightarrow> string option list" where
  "runs_block segment = [map_option joinRuns (seg_runs segment)]"

definition snippet_block :: "AnySegment \<Rightarrow> string option list" where
  "snippet_block segment =
     (case seg_snippet segment of
        None \<Rightarrow> []
      | Some snippet \<Rightarrow>
          [truthy_string (snippet_text snippet), map_option joinRuns (snippet_runs snippet)])"

definition extractTextFromSegment :: "AnySegment \<Rightarrow> string" where
  "extractTextFromSegment segment =
     (case first_return
             (renderer_block segment @ cue_block segment @ text_block segment @
              runs_block segment @ snippet_block segment) of
        Some t \<Rightarrow> t
      | None \<Rightarrow> [])"

section \<open>Numbers\<close>

text \<open>
  A JavaScript number is \<open>NaN\<close>, an infinity or a finite value. Finite values are taken
  as reals: the rounding of IEEE doubles is not modelled, and the two zeros are one.
  Of the arithmetic only \<open>a - b\<close>, \<open>a / 1000\<close> and the test \<open>a >= 0\<close> are needed.
\<close>

datatype jsnum = NaN | PosInf | NegInf | Fin real

fun js_sub :: "jsnum \<Rightarrow> jsnum \<Rightarrow> jsnum" where
  "js_sub (Fin a) (Fin b) = Fin (a - b)"
| "js_sub NaN b = NaN"
| "js_sub a NaN = NaN"
| "js_sub PosInf PosInf = NaN"
| "js_sub NegInf NegInf = NaN"
| "js_sub PosInf b = PosInf"
| "js_sub NegInf b = NegInf"
| "js_sub (Fin a) PosInf = NegInf"
| "js_sub (Fin a) NegInf = PosInf"

fun js_div1000 :: "jsnum \<Rightarrow> jsnum" where
  "js_div1000 (Fin a) = Fin (a / 1000)"
| "js_div1000 a = a"

fun js_ge0 :: "jsnum \<Rightarrow> bool" where
  "js_ge0 (Fin a) = (0 \<le> a)"
| "js_ge0 PosInf = True"
| "js_ge0 a = False"

text \<open>
  \<open>parseFloat\<close> is a function of the platform, not of the repository: the definitions
  that call it take it as the parameter \<open>parseFloat\<close>, and what is proved of them holds
  for every function in its place. The examples need a value for it;
  \<open>parseFloat_digits\<close> is \<open>parseFloat\<close> on the non-empty strings of decimal digits, where
  it reads the decimal value. On every other string it answers \<open>NaN\<close>, which
  \<open>parseFloat\<close> does not always do, so the examples use strings of digits only.
\<close>

definition digit_value :: "char \<Rightarrow> nat" where
  "digit_value c = of_char c - 48"

definition is_digit :: "char \<Rightarrow> bool" where
  "is_digit c = (48 \<le> (of_char c :: nat) \<and> (of_char c :: nat) \<le> 57)"

definition parseFloat_digits :: "string \<Rightarrow> jsnum" where
  "parseFloat_digits s =
     (if s \<noteq> [] \<and> list_all is_digit s
      then Fin (real (foldl (\<lambda>n c. 10 * n + digit_value c) 0 s))
      else NaN)"

section \<open>Segment Normalizer\<close>

text \<open>The output record \<open>{ text, offset, duration }\<close>.\<close>

record TranscriptSegment =
  ts_text :: string
  ts_offset :: jsnum
  ts_duration :: jsnum

text \<open>\<open>x || '0'\<close> for an optional string \<open>x\<close>.\<close>

definition or_zero :: "string option \<Rightarrow> string" where
  "or_zero x = (case truthy_string x of None \<Rightarrow> ''0'' | Some t \<Rightarrow> t)"

text \<open>
  The arrow function that both variants map over \<open>initial_segments\<close>; the source gives
  it no name. Its first two branches are the same in both variants:
  \<^verbatim>\<open>
  if (segment && 'transcript_segment_renderer' in segment && segment.transcript_segment_renderer) {
    const tsr = segment.transcript_segment_renderer as TranscriptSegmentRenderer;
    text = decodeHtmlEntities(extractTextFromSegment(tsr));
    offset = parseFloat(tsr.start_ms || '0') / 1000;
    duration = (parseFloat(tsr.end_ms || '0') - parseFloat(tsr.start_ms || '0')) / 1000;
  } else if (segment && 'cue_group_renderer' in segment && segment.cue_group_renderer?.cues?.[0]?.cue_renderer) {
    const cue = segment.cue_group_renderer.cues[0].cue_renderer;
    text = decodeHtmlEntities(extractTextFromSegment(cue));
    offset = parseFloat(cue.start_offset_ms || '0') / 1000;
    duration = parseFloat(cue.duration_ms || '0') / 1000;
  } else { ... }
  return { text, offset, duration };
  \<close>
\<close>

definition format_renderer :: "(string \<Rightarrow> jsnum) \<Rightarrow> TranscriptSegmentRenderer \<Rightarrow> TranscriptSegment" where
  "format_renderer parseFloat tsr =
     \<lparr>ts_text = decodeHtmlEntities (Some (extractTextFromSegment (tsr_as_segment tsr))),
      ts_offset = js_div1000 (parseFloat (or_zero (tsr_start_ms tsr))),
      ts_duration =
        js_div1000 (js_sub (parseFloat (or_zero (tsr_end_ms tsr)))
                           (parseFloat (or_zero (tsr_start_ms tsr))))\<rparr>"

definition format_cue :: "(string \<Rightarrow> jsnum) \<Rightarrow> Cue_renderer \<Rightarrow> TranscriptSegment" where
  "format_cue parseFloat cue =
     \<lparr>ts_text = decodeHtmlEntities (Some (extractTextFromSegment (cue_as_segment cue))),
      ts_offset = js_div1000 (parseFloat (or_zero (cue_start_offset_ms cue))),
      ts_duration = js_div1000 (parseFloat (or_zero (cue_duration_ms cue)))\<rparr>"

text \<open>
  The last branch in \<open>src/index.ts\<close>, with \<open>offset\<close> and \<open>duration\<close> initialised to 0:
  \<^verbatim>\<open>
  text = decodeHtmlEntities(extractTextFromSegment(segment));
  // Try to extract timing if available in GenericSegment
  const genericSegment = segment as GenericSegment;
   if (genericSegment.start_ms) offset = parseFloat(genericSegment.start_ms) / 1000;
   if (genericSegment.end_ms && genericSegment.start_ms) duration = (parseFloat(genericSegment.end_ms) - parseFloat(genericSegment.start_ms)) / 1000;
  \<close>
\<close>

definition format_generic :: "(string \<Rightarrow> jsnum) \<Rightarrow> AnySegment \<Rightarrow> TranscriptSegment" where
  "format_generic parseFloat segment =
     \<lparr>ts_text = decodeHtmlEntities (Some (extractTextFromSegment segment)),
      ts_offset =
        (case truthy_string (seg_start_ms segment) of
           Some start_ms \<Rightarrow> js_div1000 (parseFloat start_ms)
         | None \<Rightarrow> Fin 0),
      ts_duration =
        (case (truthy_string (seg_end_ms segment), truthy_string (seg_start_ms segment)) of
           (Some end_ms, Some start_ms) \<Rightarrow>
             js_div1000 (js_sub (parseFloat end_ms) (parseFloat start_ms))
         | _ \<Rightarrow> Fin 0)\<rparr>"

text \<open>
  The last branch in the other variant (\<open>src/unnamed/part_000\<close>):
  \<^verbatim>\<open>
  text = decodeHtmlEntities(extractTextFromSegment(segment));
  offset = 0;
  duration = 0;
  const genericSegment = segment as GenericSegment;
  if (genericSegment.start_ms && typeof genericSegment.start_ms === 'string') {
    offset = parseFloat(genericSegment.start_ms) / 1000;
  }
  if (genericSegment.duration_ms && typeof genericSegment.duration_ms === 'string') {
    duration = parseFloat(genericSegment.duration_ms) / 1000;
  } else if (genericSegment.end_ms && typeof genericSegment.end_ms === 'string' &&
             genericSegment.start_ms && typeof genericSegment.start_ms === 'string') {
    duration = (parseFloat(genericSegment.end_ms) - parseFloat(genericSegment.start_ms)) / 1000;
  }
  \<close>
  The three fields are declared \<open>string\<close>, so each \<open>typeof\<close> test holds when the field
  is truthy.
\<close>

definition format_generic_part000 :: "(string \<Rightarrow> jsnum) \<Rightarrow> AnySegment \<Rightarrow> TranscriptSegment" where
  "format_generic_part000 parseFloat segment =
     \<lparr>ts_text = decodeHtmlEntities (Some (extractTextFromSegment segment)),
      ts_offset =
        (case truthy_string (seg_start_ms segment) of
           Some start_ms \<Rightarrow> js_div1000 (parseFloat start_ms)
         | None \<Rightarrow> Fin 0),
      ts_duration =
        (case truthy_string (seg_duration_ms segment) of
           Some duration_ms \<Rightarrow> js_div1000 (parseFloat duration_ms)
         | None \<Rightarrow>
             (case (truthy_string (seg_end_ms segment), truthy_string (seg_start_ms segment)) of
                (Some end_ms, Some start_ms) \<Rightarrow>
                  js_div1000 (js_sub (parseFloat end_ms) (parseFloat start_ms))
              | _ \<Rightarrow> Fin 0))\<rparr>"

text \<open>
  The text of a renderer segment as the specification words it: \<open>snippet.text\<close>, then
  \<open>snippet.runs\<close> joined, then the \<open>text\<close> field, then \<open>runs\<close> joined.
\<close>

definition renderer_text_spec :: "TranscriptSegmentRenderer \<Rightarrow> string" where
  "renderer_text_spec tsr =
     (case first_return
             [truthy_string (Option.bind (tsr_snippet tsr) snippet_text),
              map_option joinRuns (Option.bind (tsr_snippet tsr) snippet_runs),
              truthy_string (tsr_text tsr),
              map_option joinRuns (tsr_runs tsr)] of
        Some t \<Rightarrow> t
      | None \<Rightarrow> [])"

text \<open>The whole arrow function, for \<open>src/index.ts\<close> and for \<open>src/unnamed/part_000\<close>.\<close>

definition formatSegment :: "(string \<Rightarrow> jsnum) \<Rightarrow> AnySegment \<Rightarrow> TranscriptSegment" where
  "formatSegment parseFloat segment =
     (case transcript_segment_renderer segment of
        Some tsr \<Rightarrow> format_renderer parseFloat tsr
      | None \<Rightarrow>
          (case first_cue_renderer segment of
             Some cue \<Rightarrow> format_cue parseFloat cue
           | None \<Rightarrow> format_generic parseFloat segment))"

definition formatSegment_part000 :: "(string \<Rightarrow> jsnum) \<Rightarrow> AnySegment \<Rightarrow> TranscriptSegment" where
  "formatSegment_part000 parseFloat segment =
     (case transcript_segment_renderer segment of
        Some tsr \<Rightarrow> format_renderer parseFloat tsr
      | None \<Rightarrow>
          (case first_cue_renderer segment of
             Some cue \<Rightarrow> format_cue parseFloat cue
           | None \<Rightarrow> format_generic_part000 parseFloat segment))"

text \<open>\<open>segments.map(...).filter(s => s.text)\<close>\<close>

definition formatTranscript :: "(AnySegment \<Rightarrow> TranscriptSegment) \<Rightarrow> AnySegment list \<Rightarrow> TranscriptSegment list" where
  "formatTranscript f segments = filter (\<lambda>s. ts_text s \<noteq> []) (map f segments)"

section \<open>ID Extractor\<close>

text \<open>
  The fields of a \<open>URL\<close> object that the code reads. \<open>searchParams\<close> is the list of
  name-value pairs in the order of the query string; \<open>searchParams.get(name)\<close> is the
  value of the first pair with that name, or \<open>null\<close>.
\<close>

record URL =
  hostname :: string
  pathname :: string
  searchParams :: "(string \<times> string) list"

definition searchParams_get :: "URL \<Rightarrow> string \<Rightarrow> string option" where
  "searchParams_get url name = map_of (searchParams url) name"

text \<open>
  \<^verbatim>\<open>
  const extractVideoId = (urlOrId: string): string | null => {
    if (!urlOrId) return null;
    if (urlOrId.length === 11 && !urlOrId.includes('/') && !urlOrId.includes('?')) {
      return urlOrId;
    }
    try {
      const url = new URL(urlOrId);
      if (url.hostname === 'youtu.be') {
        return url.pathname.substring(1);
      }
      if (url.hostname === 'www.youtube.com' || url.hostname === 'youtube.com') {
        if (url.pathname === '/watch') {
          return url.searchParams.get('v');
        }
        if (url.pathname.startsWith('/embed/')) {
          return url.pathname.substring('/embed/'.length);
        }
        if (url.pathname.startsWith('/shorts/')) {
          return url.pathname.substring('/shorts/'.length);
        }
      }
    } catch (e) {
      console.error("Invalid URL or ID format attempting to parse:", urlOrId, e);
    }
    return null;
  };
  \<close>
  The constructor \<open>new URL\<close> is the platform's; it is the parameter \<open>newURL\<close>, which
  answers \<open>None\<close> where the constructor throws. The function is the same in both
  variants. \<open>None\<close> is the result \<open>null\<close>.
\<close>

definition extractVideoId :: "(string \<Rightarrow> URL option) \<Rightarrow> string \<Rightarrow> string option" where
  "extractVideoId newURL urlOrId =
     (if urlOrId = [] then None
      else if length urlOrId = 11 \<and> CHR ''/'' \<notin> set urlOrId \<and> CHR ''?'' \<notin> set urlOrId
      then Some urlOrId
      else
        (case newURL urlOrId of
           None \<Rightarrow> None
         | Some url \<Rightarrow>
             if hostname url = ''youtu.be'' then Some (drop 1 (pathname url))
             else if hostname url = ''www.youtube.com'' \<or> hostname url = ''youtube.com'' then
               if pathname url = ''/watch'' then searchParams_get url ''v''
               else if prefix ''/embed/'' (pathname url)
               then Some (drop (length ''/embed/'') (pathname url))
               else if prefix ''/shorts/'' (pathname url)
               then Some (drop (length ''/shorts/'') (pathname url))
               else None
             else None))"

text \<open>
  The examples need a value for \<open>newURL\<close>. \<open>simple_URL\<close> is the URL constructor on the
  strings \<open>https://host\<close>, \<open>https://host/path\<close> and \<open>https://host/path?query\<close> in
  which the host is made of lower-case letters in non-empty labels separated by dots, the
  path of letters, digits, \<open>-\<close>, \<open>_\<close> and \<open>/\<close>, and the query of letters, digits,
  \<open>-\<close>, \<open>_\<close>, \<open>=\<close> and \<open>&\<close>: there the constructor keeps host and path as they
  are written, and the query is split at \<open>&\<close> and each part at its first \<open>=\<close>, with
  nothing to decode. On every other string \<open>simple_URL\<close> answers \<open>None\<close>, which the
  constructor does only for some of them; the general statements are therefore about
  an arbitrary \<open>newURL\<close>, and \<open>simple_URL\<close> stands in the examples only.
\<close>

definition is_lower :: "char \<Rightarrow> bool" where
  "is_lower c = (97 \<le> (of_char c :: nat) \<and> (of_char c :: nat) \<le> 122)"

definition is_upper :: "char \<Rightarrow> bool" where
  "is_upper c = (65 \<le> (of_char c :: nat) \<and> (of_char c :: nat) \<le> 90)"

text \<open>The characters of a video ID: letters, digits, \<open>-\<close> and \<open>_\<close>.\<close>

definition is_id_char :: "char \<Rightarrow> bool" where
  "is_id_char c = (is_lower c \<or> is_upper c \<or> is_digit c \<or> c = CHR ''-'' \<or> c = CHR ''_'')"

definition is_host :: "string \<Rightarrow> bool" where
  "is_host h =
     (h \<noteq> [] \<and> list_all (\<lambda>c. is_lower c \<or> c = CHR ''.'') h \<and>
      hd h \<noteq> CHR ''.'' \<and> last h \<noteq> CHR ''.'' \<and> \<not> str_includes h ''..'')"

definition is_path :: "string \<Rightarrow> bool" where
  "is_path p = list_all (\<lambda>c. is_id_char c \<or> c = CHR ''/'') p"

definition is_query :: "string \<Rightarrow> bool" where
  "is_query q = list_all (\<lambda>c. is_id_char c \<or> c = CHR ''='' \<or> c = CHR ''&'') q"

fun split_on :: "char \<Rightarrow> string \<Rightarrow> string list" where
  "split_on d [] = [[]]"
| "split_on d (c # cs) =
     (if c = d then [] # split_on d cs
      else (case split_on d cs of [] \<Rightarrow> [[c]] | w # ws \<Rightarrow> (c # w) # ws))"

definition parse_query :: "string \<Rightarrow> (string \<times> string) list" where
  "parse_query q =
     map (\<lambda>part. (takeWhile (\<lambda>c. c \<noteq> CHR ''='') part,
                  drop 1 (dropWhile (\<lambda>c. c \<noteq> CHR ''='') part)))
         (filter (\<lambda>part. part \<noteq> []) (split_on CHR ''&'' q))"

definition simple_URL :: "string \<Rightarrow> URL option" where
  "simple_URL s =
     (if prefix ''https://'' s then
        (let after_scheme = drop (length ''https://'') s;
             host = takeWhile (\<lambda>c. c \<noteq> CHR ''/'') after_scheme;
             rest = dropWhile (\<lambda>c. c \<noteq> CHR ''/'') after_scheme;
             path = takeWhile (\<lambda>c. c \<noteq> CHR ''?'') rest;
             query = drop 1 (dropWhile (\<lambda>c. c \<noteq> CHR ''?'') rest)
         in if is_host host \<and> is_path path \<and> is_query query
            then Some \<lparr>hostname = host,
                       pathname = (if path = [] then ''/'' else path),
                       searchParams = parse_query query\<rparr>
            else None)
      else None)"

section \<open>The two fetch paths\<close>

text \<open>
  An exception is the \<open>Error\<close> object thrown: its \<open>message\<close>, and whether it is an
  instance of \<open>SyntaxError\<close> (the one class the code asks for).
\<close>

record js_error =
  is_SyntaxError :: bool
  message :: string

definition Error :: "string \<Rightarrow> js_error" where
  "Error m = \<lparr>is_SyntaxError = False, message = m\<rparr>"

text \<open>
  The client of the metadata service is outside the repository. What one request sees
  of it is one of three outcomes, in the order of the calls
  \<open>Innertube.create()\<close>, \<open>youtube.getInfo(videoId)\<close>, \<open>info.getTranscript()\<close>:
  \<^item> \<open>Info_throws e\<close>: \<open>create\<close> or \<open>getInfo\<close> throws \<open>e\<close>;
  \<^item> \<open>Transcript_throws title e\<close>: \<open>getInfo\<close> returns, \<open>info.basic_info?.title\<close> is
    \<open>title\<close>, and \<open>getTranscript\<close> throws \<open>e\<close>;
  \<^item> \<open>Transcript_data title segments\<close>: \<open>getTranscript\<close> returns; \<open>segments\<close> is
    \<open>transcriptData.transcript.content.body.initial_segments\<close> when the data and every
    step of that path are truthy, and \<open>None\<close> otherwise.
\<close>

datatype innertube_outcome =
    Info_throws js_error
  | Transcript_throws "string option" js_error
  | Transcript_data "string option" "AnySegment list option"

text \<open>\<open>info.basic_info?.title || 'Untitled Video'\<close>\<close>

definition title_or_untitled :: "string option \<Rightarrow> string" where
  "title_or_untitled title =
     (case truthy_string title of None \<Rightarrow> ''Untitled Video'' | Some t \<Rightarrow> t)"

text \<open>A cue of the parsed subtitle track: \<open>cue.text\<close>, \<open>cue.start\<close>, \<open>cue.end\<close>.\<close>

record Cue =
  vtt_text :: string
  vtt_start :: jsnum
  vtt_end :: jsnum

text \<open>
  The download command, the file system and the subtitle parser are outside the
  repository too. One call of \<open>fetchTranscriptWithYtDlp\<close> sees one of:
  \<^item> \<open>Ytdlp_throws e\<close>: the command fails, or a call on the file system or the parser
    throws; the function lets \<open>e\<close> through (it rethrows the command's error);
  \<^item> \<open>No_vtt_file\<close>: the command succeeds and no file with the output stem and the
    extension \<open>.vtt\<close> is found;
  \<^item> \<open>Vtt_parsed cues\<close>: the file is read and parsed; \<open>cues\<close> is \<open>parsed.cues\<close> when
    \<open>parsed && parsed.cues\<close> is truthy, and \<open>None\<close> otherwise.
\<close>

datatype ytdlp_outcome =
    Ytdlp_throws js_error
  | No_vtt_file
  | Vtt_parsed "Cue list option"

text \<open>
  \<^verbatim>\<open>
  try { await execPromise(command); } catch (error) { ...; throw error; }
  ...
  if (!vttFile) { throw new Error('No transcript found (yt-dlp)'); }
  ...
  const parsed = nodeWebVtt.parse(vttContent, { meta: true });
  if (parsed && parsed.cues) {
      return parsed.cues.map((cue: any) => ({
          text: cue.text,
          offset: cue.start,
          duration: cue.end - cue.start
      }));
  }
  return [];
  \<close>
  \<open>Inl e\<close> is the exception \<open>e\<close> leaving the function. The video ID goes into the
  command and the file names only, which the outcome stands for.
\<close>

definition cue_segment :: "Cue \<Rightarrow> TranscriptSegment" where
  "cue_segment cue =
     \<lparr>ts_text = vtt_text cue, ts_offset = vtt_start cue,
      ts_duration = js_sub (vtt_end cue) (vtt_start cue)\<rparr>"

definition fetchTranscriptWithYtDlp :: "ytdlp_outcome \<Rightarrow> js_error + TranscriptSegment list" where
  "fetchTranscriptWithYtDlp ytdlp =
     (case ytdlp of
        Ytdlp_throws e \<Rightarrow> Inl e
      | No_vtt_file \<Rightarrow> Inl (Error ''No transcript found (yt-dlp)'')
      | Vtt_parsed None \<Rightarrow> Inr []
      | Vtt_parsed (Some parsed_cues) \<Rightarrow> Inr (map cue_segment parsed_cues))"

section \<open>Request Handler\<close>

text \<open>
  A response is its status and the JSON object sent; \<open>res.json\<close> without \<open>res.status\<close>
  sends status 200. The body has one optional field for each key the code writes;
  \<open>None\<close> is a key that is not in the object.
\<close>

record Body =
  body_error :: "string option"
  body_videoId :: "string option"
  body_videoTitle :: "string option"
  body_transcript :: "TranscriptSegment list option"

record Response =
  status :: nat
  body :: Body

text \<open>\<open>res.status(code).json({ error })\<close>\<close>

definition error_response :: "nat \<Rightarrow> string \<Rightarrow> Response" where
  "error_response code err =
     \<lparr>status = code,
      body = \<lparr>body_error = Some err, body_videoId = None, body_videoTitle = None,
              body_transcript = None\<rparr>\<rparr>"

text \<open>\<open>res.status(code).json({ error: errorMessage, videoId })\<close>\<close>

definition error_id_response :: "nat \<Rightarrow> string \<Rightarrow> string \<Rightarrow> Response" where
  "error_id_response code err videoId =
     \<lparr>status = code,
      body = \<lparr>body_error = Some err, body_videoId = Some videoId, body_videoTitle = None,
              body_transcript = None\<rparr>\<rparr>"

text \<open>\<open>res.status(404).json({ videoTitle, error: "No transcript available for this video." })\<close>\<close>

definition no_transcript_response :: "string \<Rightarrow> Response" where
  "no_transcript_response videoTitle =
     \<lparr>status = 404,
      body = \<lparr>body_error = Some ''No transcript available for this video.'',
              body_videoId = None, body_videoTitle = Some videoTitle,
              body_transcript = None\<rparr>\<rparr>"

text \<open>\<open>res.json({ videoTitle: decodeHtmlEntities(videoTitle), transcript: formattedTranscript })\<close>\<close>

definition transcript_response :: "string \<Rightarrow> TranscriptSegment list \<Rightarrow> Response" where
  "transcript_response videoTitle formattedTranscript =
     \<lparr>status = 200,
      body = \<lparr>body_error = None, body_videoId = None,
              body_videoTitle = Some (decodeHtmlEntities (Some videoTitle)),
              body_transcript = Some formattedTranscript\<rparr>\<rparr>"

subsection \<open>The variant with the fallback (\<open>src/index.ts\<close>)\<close>

text \<open>
  The inner \<open>try\<close> of the handler, whose \<open>catch\<close> only logs: the values of
  \<open>videoTitle\<close> and \<open>formattedTranscript\<close> after it. Both start as
  \<open>'Untitled Video'\<close> and \<open>[]\<close>, the title is assigned after \<open>getInfo\<close>, the transcript
  when the path to \<open>initial_segments\<close> is there.
\<close>

definition innertube_attempt :: "(string \<Rightarrow> jsnum) \<Rightarrow> innertube_outcome \<Rightarrow> string \<times> TranscriptSegment list" where
  "innertube_attempt parseFloat innertube =
     (case innertube of
        Info_throws e \<Rightarrow> (''Untitled Video'', [])
      | Transcript_throws title e \<Rightarrow> (title_or_untitled title, [])
      | Transcript_data title None \<Rightarrow> (title_or_untitled title, [])
      | Transcript_data title (Some segments) \<Rightarrow>
          (title_or_untitled title, formatTranscript (formatSegment parseFloat) segments))"

text \<open>
  The rest of the outer \<open>try\<close>:
  \<^verbatim>\<open>
  if (formattedTranscript.length === 0) {
      try {
          formattedTranscript = await fetchTranscriptWithYtDlp(videoId);
      } catch (ytdlpError) {
          console.error('yt-dlp fallback also failed:', ytdlpError);
          throw new Error('Failed to fetch transcript from both sources.');
      }
  }
  if (formattedTranscript.length === 0) {
       return res.status(404).json({ videoTitle, error: "No transcript available for this video." });
  }
  return res.json({ videoTitle: decodeHtmlEntities(videoTitle), transcript: formattedTranscript });
  \<close>
  \<open>Inl e\<close> is the exception \<open>e\<close> reaching the outer \<open>catch\<close>.
\<close>

definition try_block :: "(string \<Rightarrow> jsnum) \<Rightarrow> innertube_outcome \<Rightarrow> ytdlp_outcome \<Rightarrow> js_error + Response" where
  "try_block parseFloat innertube ytdlp =
     (case innertube_attempt parseFloat innertube of
        (videoTitle, primaryTranscript) \<Rightarrow>
          (case (if primaryTranscript = []
                 then (case fetchTranscriptWithYtDlp ytdlp of
                         Inl ytdlpError \<Rightarrow> Inl (Error ''Failed to fetch transcript from both sources.'')
                       | Inr fallbackTranscript \<Rightarrow> Inr fallbackTranscript)
                 else Inr primaryTranscript) of
             Inl e \<Rightarrow> Inl e
           | Inr formattedTranscript \<Rightarrow>
               if formattedTranscript = [] then Inr (no_transcript_response videoTitle)
               else Inr (transcript_response videoTitle formattedTranscript)))"

text \<open>
  \<^verbatim>\<open>
  } catch (error: unknown) {
    const err = error as Error;
    let errorMessage = "Failed to fetch transcript.";
    let statusCode = 500;
    if (err.message.includes('No transcript found')) {
        errorMessage = "Transcripts are not available for this video.";
        statusCode = 404;
    }
    return res.status(statusCode).json({ error: errorMessage, videoId });
  }
  \<close>
\<close>

definition catch_block :: "js_error \<Rightarrow> string \<Rightarrow> Response" where
  "catch_block err videoId =
     (if str_includes (message err) ''No transcript found''
      then error_id_response 404 ''Transcripts are not available for this video.'' videoId
      else error_id_response 500 ''Failed to fetch transcript.'' videoId)"

text \<open>
  \<^verbatim>\<open>
  app.get('/', async (req: Request, res: Response) => {
    const videoUrlOrId = req.query.id as string;
    if (!videoUrlOrId) {
      return res.status(400).json({ error: "Video ID or URL is required (query param: 'id')" });
    }
    const videoId = extractVideoId(videoUrlOrId);
    if (!videoId) {
      return res.status(400).json({ error: "Invalid YouTube Video ID or URL format" });
    }
    try { ... } catch (error: unknown) { ... }
  });
  \<close>
  \<open>query_id\<close> is \<open>req.query.id\<close>: \<open>None\<close> when the request has no parameter \<open>id\<close>,
  \<open>Some []\<close> for \<open>GET /?id=\<close>.
\<close>

definition handler :: "(string \<Rightarrow> URL option) \<Rightarrow> (string \<Rightarrow> jsnum) \<Rightarrow> string option \<Rightarrow> innertube_outcome \<Rightarrow> ytdlp_outcome \<Rightarrow> Response" where
  "handler newURL parseFloat query_id innertube ytdlp =
     (case truthy_string query_id of
        None \<Rightarrow> error_response 400 ''Video ID or URL is required (query param: 'id')''
      | Some videoUrlOrId \<Rightarrow>
          (case truthy_string (extractVideoId newURL videoUrlOrId) of
             None \<Rightarrow> error_response 400 ''Invalid YouTube Video ID or URL format''
           | Some videoId \<Rightarrow>
               (case try_block parseFloat innertube ytdlp of
                  Inr response \<Rightarrow> response
                | Inl err \<Rightarrow> catch_block err videoId)))"

subsection \<open>The variant without the fallback (\<open>src/unnamed/part_000\<close>)\<close>

text \<open>
  \<^verbatim>\<open>
  const youtube = await Innertube.create();
  const info = await youtube.getInfo(videoId);
  const videoTitle = info.basic_info?.title || 'Untitled Video';
  const transcriptData = await info.getTranscript();
  if (!transcriptData || ... || !transcriptData.transcript.content.body.initial_segments) {
    return res.status(404).json({ videoTitle, error: "No transcript available for this video." });
  }
  const segments = transcriptData.transcript.content.body.initial_segments || [];
  const formattedTranscript = segments.map(...).filter(...);
  return res.json({ videoTitle: decodeHtmlEntities(videoTitle), transcript: formattedTranscript });
  \<close>
\<close>

definition try_block_part000 :: "(string \<Rightarrow> jsnum) \<Rightarrow> innertube_outcome \<Rightarrow> js_error + Response" where
  "try_block_part000 parseFloat innertube =
     (case innertube of
        Info_throws e \<Rightarrow> Inl e
      | Transcript_throws title e \<Rightarrow> Inl e
      | Transcript_data title None \<Rightarrow> Inr (no_transcript_response (title_or_untitled title))
      | Transcript_data title (Some segments) \<Rightarrow>
          Inr (transcript_response (title_or_untitled title)
                 (formatTranscript (formatSegment_part000 parseFloat) segments)))"

text \<open>
  \<^verbatim>\<open>
  if (err instanceof SyntaxError && err.message.includes("JSON")) {
    errorMessage = "Failed to process data from YouTube. The API response may be malformed or incomplete.";
  } else if (err.message.includes('private') || err.message.includes('unavailable') || err.message.includes('premiere') || err.message.includes('live')) {
    errorMessage = "Video is private, unavailable, a live stream, or a premiere without a processed transcript.";
    statusCode = 403;
  } else if (err.message.includes(<a literal in Bengali script>) || err.message.includes('region-locked')) {
    errorMessage = "The video is region-locked and unavailable.";
    statusCode = 451;
  } else if (err.message.includes('Transcripts are not available for this video')) {
      errorMessage = "Transcripts are not available for this video.";
      statusCode = 404;
  }
  return res.status(statusCode).json({ error: errorMessage, videoId });
  \<close>
  The literal in Bengali script has code units above 255 only, besides a space; no
  message of the model contains it, so its test is \<open>False\<close> here.
\<close>

definition catch_block_part000 :: "js_error \<Rightarrow> string \<Rightarrow> Response" where
  "catch_block_part000 err videoId =
     (if is_SyntaxError err \<and> str_includes (message err) ''JSON''
      then error_id_response 500
             ''Failed to process data from YouTube. The API response may be malformed or incomplete.''
             videoId
      else if str_includes (message err) ''private'' \<or> str_includes (message err) ''unavailable'' \<or>
              str_includes (message err) ''premiere'' \<or> str_includes (message err) ''live''
      then error_id_response 403
             ''Video is private, unavailable, a live stream, or a premiere without a processed transcript.''
             videoId
      else if False \<or> str_includes (message err) ''region-locked''
      then error_id_response 451 ''The video is region-locked and unavailable.'' videoId
      else if str_includes (message err) ''Transcripts are not available for this video''
      then error_id_response 404 ''Transcripts are not available for this video.'' videoId
      else error_id_response 500 ''Failed to fetch transcript.'' videoId)"

definition handler_part000 :: "(string \<Rightarrow> URL option) \<Rightarrow> (string \<Rightarrow> jsnum) \<Rightarrow> string option \<Rightarrow> innertube_outcome \<Rightarrow> Response" where
  "handler_part000 newURL parseFloat query_id innertube =
     (case truthy_string query_id of
        None \<Rightarrow> error_response 400 ''Video ID or URL is required (query param: 'id')''
      | Some videoUrlOrId \<Rightarrow>
          (case truthy_string (extractVideoId newURL videoUrlOrId) of
             None \<Rightarrow> error_response 400 ''Invalid YouTube Video ID or URL format''
           | Some videoId \<Rightarrow>
               (case try_block_part000 parseFloat innertube of
                  Inr response \<Rightarrow> response
                | Inl err \<Rightarrow> catch_block_part000 err videoId)))"

section \<open>Properties\<close>

lemma replace_g_absent: "\<not> str_includes s pat \<Longrightarrow> replace_g pat rep s = s"
  by (induction s) auto

lemma decode_entity_free: "entity_free s \<Longrightarrow> decodeHtmlEntities (Some s) = s"
  by (simp add: decodeHtmlEntities_def entity_free_def replace_g_absent)


lemma str_includes_sublist: "str_includes s pat = sublist pat s"
  by (induction s) (auto simp: sublist_Cons_right)

subsection \<open>Entity Decoder\<close>

text \<open>
  Claim C6. The Entity Decoder is the six global replacements \<open>&amp;\<close> to \<open>&\<close>,
  \<open>&lt;\<close> to \<open><\<close>, \<open>&gt;\<close> to \<open>>\<close>, \<open>&quot;\<close> to the double quote, \<open>&#39;\<close> to
  the apostrophe and \<open>&nbsp;\<close> to a space, applied one after the other in this order
  (\<open>decode_spec\<close> folds the table in its order), and it maps \<open>null\<close> and \<open>undefined\<close>
  to the empty string; the example of the specification decodes as stated.
\<close>

theorem decodeHtmlEntities_sequential:
  \<open>decodeHtmlEntities text = decode_spec text \<and>
   decodeHtmlEntities None = [] \<and>
   decodeHtmlEntities (Some ''A &amp; B &lt;tag&gt; &quot;q&quot; it&#39;s&nbsp;here'') =
     ''A & B <tag> "q" it's here''\<close>
proof (intro conjI)
  show "decodeHtmlEntities text = decode_spec text"
    by (simp add: decodeHtmlEntities_def decode_spec_def entity_table_def split: option.split)
  show "decodeHtmlEntities None = []"
    by (simp add: decodeHtmlEntities_def)
  show \<open>decodeHtmlEntities (Some ''A &amp; B &lt;tag&gt; &quot;q&quot; it&#39;s&nbsp;here'') =
     ''A & B <tag> "q" it's here''\<close>
    by (simp add: decodeHtmlEntities_def)
qed

text \<open>
  Claim C7. A string in which none of the six entity sequences occurs is returned
  unchanged by the Entity Decoder, so an entity that is not one of the six passes
  through, and decoding such a text once more changes nothing.
\<close>

theorem decode_entity_free_unchanged:
  assumes "entity_free s"
  shows "decodeHtmlEntities (Some s) = s \<and>
         decodeHtmlEntities (Some (decodeHtmlEntities (Some s))) = decodeHtmlEntities (Some s)"
  using assms by (simp add: decode_entity_free)

theorem decode_entity_free_unchanged_witness:
  "entity_free ''&copy; 2024 &hearts;'' \<and>
   (decodeHtmlEntities (Some ''&copy; 2024 &hearts;'') = ''&copy; 2024 &hearts;'' \<and>
    decodeHtmlEntities (Some (decodeHtmlEntities (Some ''&copy; 2024 &hearts;''))) =
      decodeHtmlEntities (Some ''&copy; 2024 &hearts;''))"
proof -
  have free: "entity_free ''&copy; 2024 &hearts;''"
    by (simp add: entity_free_def)
  show ?thesis
    by (rule conjI [OF free decode_entity_free_unchanged [OF free]])
qed

text \<open>
  The hypothesis of C7 is needed: the output of the decoder can hold an entity
  sequence again, and then a second call changes it.
\<close>

lemma decode_twice_differs:
  "decodeHtmlEntities (Some ''&amp;amp;'') = ''&amp;'' \<and>
   decodeHtmlEntities (Some (decodeHtmlEntities (Some ''&amp;amp;''))) = ''&''"
  by (simp add: decodeHtmlEntities_def)

text \<open>
  Claim C10. The replacement of \<open>&amp;\<close> comes first, so an entity that was escaped
  twice is decoded twice by one call: the input \<open>&amp;lt;\<close> gives \<open><\<close>, not
  \<open>&lt;\<close>.
\<close>

theorem decode_double_escape:
  "decodeHtmlEntities (Some ''&amp;lt;'') = ''<'' \<and>
   decodeHtmlEntities (Some ''&amp;lt;'') \<noteq> ''&lt;''"
  by (simp add: decodeHtmlEntities_def)

subsection \<open>Input validation\<close>

text \<open>
  Claim C9. A request whose parameter \<open>id\<close> is the empty string (\<open>GET /?id=\<close>) gets
  the 400 response with the error \<open>Video ID or URL is required (query param: 'id')\<close>,
  in both variants, and not the 400 response for an invalid format: the test
  \<open>!videoUrlOrId\<close> holds for the empty string.
\<close>

theorem empty_id_is_missing_input:
  "handler newURL parseFloat (Some []) innertube ytdlp =
     error_response 400 ''Video ID or URL is required (query param: 'id')'' \<and>
   handler_part000 newURL parseFloat (Some []) innertube =
     error_response 400 ''Video ID or URL is required (query param: 'id')'' \<and>
   error_response 400 ''Video ID or URL is required (query param: 'id')'' \<noteq>
     error_response 400 ''Invalid YouTube Video ID or URL format''"
  by (simp add: handler_def handler_part000_def truthy_string_def error_response_def)

subsection \<open>ID Extractor\<close>

lemma not_id_char_special:
  "\<not> is_id_char CHR ''/''" "\<not> is_id_char CHR ''?''" "\<not> is_id_char CHR ''&''" "\<not> is_id_char CHR ''=''"
  by (simp_all add: is_id_char_def is_lower_def is_upper_def is_digit_def)

lemma is_host_no_slash: "is_host h \<Longrightarrow> \<forall>c\<in>set h. c \<noteq> CHR ''/''"
  by (auto simp: is_host_def list_all_iff is_lower_def)

lemma is_path_no_question: "is_path p \<Longrightarrow> \<forall>c\<in>set p. c \<noteq> CHR ''?''"
  using not_id_char_special(2) by (auto simp: is_path_def list_all_iff)

lemma split_on_absent: "d \<notin> set s \<Longrightarrow> split_on d s = [s]"
  by (induction s) auto

lemma takeWhile_until:
  "\<forall>c\<in>set xs. c \<noteq> d \<Longrightarrow> takeWhile (\<lambda>c. c \<noteq> d) (xs @ d # ys) = xs"
  by (induction xs) auto

lemma dropWhile_until:
  "\<forall>c\<in>set xs. c \<noteq> d \<Longrightarrow> dropWhile (\<lambda>c. c \<noteq> d) (xs @ d # ys) = d # ys"
  by (induction xs) auto

lemma simple_URL_path:
  assumes h: "is_host h" and p: "is_path (CHR ''/'' # p)"
  shows "simple_URL (''https://'' @ h @ CHR ''/'' # p) =
           Some \<lparr>hostname = h, pathname = CHR ''/'' # p, searchParams = []\<rparr>"
proof -
  have host: "takeWhile (\<lambda>c. c \<noteq> CHR ''/'') (h @ CHR ''/'' # p) = h"
    using is_host_no_slash [OF h] by (simp add: takeWhile_tail)
  have rest: "dropWhile (\<lambda>c. c \<noteq> CHR ''/'') (h @ CHR ''/'' # p) = CHR ''/'' # p"
    using is_host_no_slash [OF h] by (simp add: dropWhile_append3)
  have path: "takeWhile (\<lambda>c. c \<noteq> CHR ''?'') (CHR ''/'' # p) = CHR ''/'' # p"
    using is_path_no_question [OF p] by (simp add: takeWhile_eq_all_conv)
  have query: "dropWhile (\<lambda>c. c \<noteq> CHR ''?'') (CHR ''/'' # p) = []"
    using is_path_no_question [OF p] by simp
  have pq: "parse_query [] = []"
    by (simp add: parse_query_def)
  have "is_query []"
    by (simp add: is_query_def)
  then show ?thesis
    using h p by (simp add: simple_URL_def Let_def host rest path query pq del: takeWhile.simps dropWhile.simps)
qed

lemma simple_URL_query:
  assumes h: "is_host h" and p: "is_path (CHR ''/'' # p)" and q: "is_query q"
  shows "simple_URL (''https://'' @ h @ CHR ''/'' # p @ CHR ''?'' # q) =
           Some \<lparr>hostname = h, pathname = CHR ''/'' # p, searchParams = parse_query q\<rparr>"
proof -
  have host: "takeWhile (\<lambda>c. c \<noteq> CHR ''/'') (h @ CHR ''/'' # p @ CHR ''?'' # q) = h"
    using is_host_no_slash [OF h] by (simp add: takeWhile_tail)
  have rest: "dropWhile (\<lambda>c. c \<noteq> CHR ''/'') (h @ CHR ''/'' # p @ CHR ''?'' # q) =
                (CHR ''/'' # p) @ CHR ''?'' # q"
    using is_host_no_slash [OF h] by (simp add: dropWhile_append3)
  have path: "takeWhile (\<lambda>c. c \<noteq> CHR ''?'') ((CHR ''/'' # p) @ CHR ''?'' # q) = CHR ''/'' # p"
    using is_path_no_question [OF p] by (rule takeWhile_until)
  have query: "dropWhile (\<lambda>c. c \<noteq> CHR ''?'') ((CHR ''/'' # p) @ CHR ''?'' # q) = CHR ''?'' # q"
    using is_path_no_question [OF p] by (rule dropWhile_until)
  show ?thesis
    using h p q by (simp add: simple_URL_def Let_def host rest path query del: takeWhile.simps dropWhile.simps append_Cons)
qed

lemma id_chars_path: "list_all is_id_char X \<Longrightarrow> is_path (xs @ X) = is_path xs"
  by (induction X) (auto simp: is_path_def list_all_iff)

lemma id_chars_query: "list_all is_id_char X \<Longrightarrow> is_query (xs @ X) = is_query xs"
  by (induction X) (auto simp: is_query_def list_all_iff)

lemma id_chars_no_amp: "list_all is_id_char X \<Longrightarrow> CHR ''&'' \<notin> set X"
  using not_id_char_special(3) by (auto simp: list_all_iff)

lemma parse_query_v:
  assumes "list_all is_id_char X"
  shows "parse_query (''v='' @ X) = [(''v'', X)]"
proof -
  have "CHR ''&'' \<notin> set (''v='' @ X)"
    using id_chars_no_amp [OF assms] by simp
  then have "split_on CHR ''&'' (''v='' @ X) = [''v='' @ X]"
    by (rule split_on_absent)
  then show ?thesis
    by (simp add: parse_query_def)
qed

lemma hosts_ok: "is_host ''youtu.be''" "is_host ''www.youtube.com''" "is_host ''youtube.com''" "is_host ''example.com''"
  by (simp_all add: is_host_def is_lower_def)

lemma paths_ok: "is_path ''/''" "is_path ''/watch''" "is_path ''/embed/''" "is_path ''/shorts/''" "is_path ''/foo''"
  by (simp_all add: is_path_def is_id_char_def is_lower_def)

lemma simple_URL_youtu_be:
  assumes "list_all is_id_char X"
  shows "simple_URL (''https://youtu.be/'' @ X) =
           Some \<lparr>hostname = ''youtu.be'', pathname = ''/'' @ X, searchParams = []\<rparr>"
  using simple_URL_path [OF hosts_ok(1), of X] id_chars_path [OF assms, of "''/''"] paths_ok(1)
  by simp

lemma simple_URL_watch:
  assumes "list_all is_id_char X"
  shows "simple_URL (''https://www.youtube.com/watch?v='' @ X) =
           Some \<lparr>hostname = ''www.youtube.com'', pathname = ''/watch'', searchParams = [(''v'', X)]\<rparr>"
proof -
  have "is_query (''v='' @ X)"
    using id_chars_query [OF assms, of "''v=''"] by (simp add: is_query_def is_id_char_def is_lower_def)
  from simple_URL_query [OF hosts_ok(2) paths_ok(2) this] parse_query_v [OF assms]
  show ?thesis
    by simp
qed

lemma simple_URL_embed:
  assumes "list_all is_id_char X"
  shows "simple_URL (''https://youtube.com/embed/'' @ X) =
           Some \<lparr>hostname = ''youtube.com'', pathname = ''/embed/'' @ X, searchParams = []\<rparr>"
  using simple_URL_path [OF hosts_ok(3), of "''embed/'' @ X"] id_chars_path [OF assms, of "''/embed/''"] paths_ok(3)
  by simp

lemma simple_URL_shorts:
  assumes "list_all is_id_char X"
  shows "simple_URL (''https://youtube.com/shorts/'' @ X) =
           Some \<lparr>hostname = ''youtube.com'', pathname = ''/shorts/'' @ X, searchParams = []\<rparr>"
  using simple_URL_path [OF hosts_ok(3), of "''shorts/'' @ X"] id_chars_path [OF assms, of "''/shorts/''"] paths_ok(4)
  by simp

lemma extractVideoId_bare:
  assumes "length s = 11" "CHR ''/'' \<notin> set s" "CHR ''?'' \<notin> set s"
  shows "extractVideoId newURL s = Some s"
  using assms by (auto simp: extractVideoId_def)

lemma extractVideoId_url:
  assumes "CHR ''/'' \<in> set s \<or> CHR ''?'' \<in> set s" "newURL s = Some url"
  shows "extractVideoId newURL s =
          (if hostname url = ''youtu.be'' then Some (drop 1 (pathname url))
           else if hostname url = ''www.youtube.com'' \<or> hostname url = ''youtube.com'' then
             if pathname url = ''/watch'' then searchParams_get url ''v''
             else if prefix ''/embed/'' (pathname url) then Some (drop (length ''/embed/'') (pathname url))
             else if prefix ''/shorts/'' (pathname url) then Some (drop (length ''/shorts/'') (pathname url))
             else None
           else None)"
  using assms by (auto simp: extractVideoId_def)

text \<open>
  Claim C8. An 11-character string without \<open>/\<close> and \<open>?\<close> is returned unchanged,
  whatever the URL constructor does. For an ID \<open>X\<close> (any string of letters, digits,
  \<open>-\<close> and \<open>_\<close>, so the 11-character IDs among them) the extractor returns \<open>X\<close> from
  \<open>https://youtu.be/X\<close>, \<open>https://www.youtube.com/watch?v=X\<close>,
  \<open>https://youtube.com/embed/X\<close> and \<open>https://youtube.com/shorts/X\<close>, and it fails
  on \<open>https://example.com/foo\<close>.
\<close>

theorem extractVideoId_shapes:
  "(length s = 11 \<and> CHR ''/'' \<notin> set s \<and> CHR ''?'' \<notin> set s \<longrightarrow> extractVideoId newURL s = Some s) \<and>
   (list_all is_id_char X \<longrightarrow>
      extractVideoId simple_URL (''https://youtu.be/'' @ X) = Some X \<and>
      extractVideoId simple_URL (''https://www.youtube.com/watch?v='' @ X) = Some X \<and>
      extractVideoId simple_URL (''https://youtube.com/embed/'' @ X) = Some X \<and>
      extractVideoId simple_URL (''https://youtube.com/shorts/'' @ X) = Some X) \<and>
   extractVideoId simple_URL ''https://example.com/foo'' = None"
proof (intro conjI impI)
  assume "length s = 11 \<and> CHR ''/'' \<notin> set s \<and> CHR ''?'' \<notin> set s"
  then show "extractVideoId newURL s = Some s"
    by (simp add: extractVideoId_bare)
next
  assume X: "list_all is_id_char X"
  show "extractVideoId simple_URL (''https://youtu.be/'' @ X) = Some X"
    using extractVideoId_url [where newURL = simple_URL, OF _ simple_URL_youtu_be [OF X]] by simp
  show "extractVideoId simple_URL (''https://www.youtube.com/watch?v='' @ X) = Some X"
    using extractVideoId_url [where newURL = simple_URL, OF _ simple_URL_watch [OF X]] by (simp add: searchParams_get_def)
  show "extractVideoId simple_URL (''https://youtube.com/embed/'' @ X) = Some X"
    using extractVideoId_url [where newURL = simple_URL, OF _ simple_URL_embed [OF X]] by simp
  show "extractVideoId simple_URL (''https://youtube.com/shorts/'' @ X) = Some X"
    using extractVideoId_url [where newURL = simple_URL, OF _ simple_URL_shorts [OF X]] by simp
next
  have "simple_URL ''https://example.com/foo'' =
          Some \<lparr>hostname = ''example.com'', pathname = ''/foo'', searchParams = []\<rparr>"
    using simple_URL_path [OF hosts_ok(4), of "''foo''"] paths_ok(5) by simp
  then show "extractVideoId simple_URL ''https://example.com/foo'' = None"
    by (simp add: extractVideoId_def)
qed


lemma id_chars_example: "list_all is_id_char ''dQw4w9WgXcQ''" "list_all is_id_char ''abc''"
  by (simp_all add: is_id_char_def is_lower_def is_upper_def is_digit_def)

theorem extractVideoId_shapes_witness:
  "(length ''dQw4w9WgXcQ'' = 11 \<and> CHR ''/'' \<notin> set ''dQw4w9WgXcQ'' \<and> CHR ''?'' \<notin> set ''dQw4w9WgXcQ'') \<and>
   list_all is_id_char ''dQw4w9WgXcQ'' \<and>
   extractVideoId simple_URL ''dQw4w9WgXcQ'' = Some ''dQw4w9WgXcQ'' \<and>
   extractVideoId simple_URL ''https://youtu.be/dQw4w9WgXcQ'' = Some ''dQw4w9WgXcQ'' \<and>
   extractVideoId simple_URL ''https://www.youtube.com/watch?v=dQw4w9WgXcQ'' = Some ''dQw4w9WgXcQ'' \<and>
   extractVideoId simple_URL ''https://youtube.com/embed/dQw4w9WgXcQ'' = Some ''dQw4w9WgXcQ'' \<and>
   extractVideoId simple_URL ''https://youtube.com/shorts/dQw4w9WgXcQ'' = Some ''dQw4w9WgXcQ'' \<and>
   extractVideoId simple_URL ''https://example.com/foo'' = None"
proof -
  have bare: "length ''dQw4w9WgXcQ'' = 11 \<and> CHR ''/'' \<notin> set ''dQw4w9WgXcQ'' \<and> CHR ''?'' \<notin> set ''dQw4w9WgXcQ''"
    by simp
  from extractVideoId_shapes [of "''dQw4w9WgXcQ''" simple_URL "''dQw4w9WgXcQ''"] bare id_chars_example(1)
  show ?thesis
    by simp
qed

text \<open>
  Claim C5 says that every result of the ID Extractor is an 11-character ID. It is not:
  the URL branches return the path or the parameter as it is, of any length.
\<close>

theorem extractVideoId_short_result:
  "extractVideoId simple_URL ''https://youtu.be/abc'' = Some ''abc'' \<and> length ''abc'' \<noteq> 11"
  using extractVideoId_url [where newURL = simple_URL, OF _ simple_URL_youtu_be [OF id_chars_example(2)]]
  by simp

text \<open>
  Claim C5, amended. When the ID Extractor succeeds, its result is either the input
  itself, which then has 11 characters and neither \<open>/\<close> nor \<open>?\<close>, or a part of the
  parsed URL: the path after its first character for the host \<open>youtu.be\<close>, and for the
  hosts \<open>www.youtube.com\<close> and \<open>youtube.com\<close> the parameter \<open>v\<close> of the path \<open>/watch\<close>
  or the rest of a path that starts with \<open>/embed/\<close> or \<open>/shorts/\<close>. The length of a
  result taken from a URL is not checked.
\<close>

theorem extractVideoId_success:
  assumes "extractVideoId newURL s = Some v"
  shows "(v = s \<and> length s = 11 \<and> CHR ''/'' \<notin> set s \<and> CHR ''?'' \<notin> set s) \<or>
         (\<exists>url. newURL s = Some url \<and>
            (hostname url = ''youtu.be'' \<and> v = drop 1 (pathname url) \<or>
             (hostname url = ''www.youtube.com'' \<or> hostname url = ''youtube.com'') \<and>
               (pathname url = ''/watch'' \<and> searchParams_get url ''v'' = Some v \<or>
                prefix ''/embed/'' (pathname url) \<and> v = drop (length ''/embed/'') (pathname url) \<or>
                prefix ''/shorts/'' (pathname url) \<and> v = drop (length ''/shorts/'') (pathname url))))"
  using assms unfolding extractVideoId_def
  by (auto split: if_splits option.splits)

theorem extractVideoId_success_witness:
  "extractVideoId simple_URL ''https://youtu.be/abc'' = Some ''abc'' \<and>
   ((''abc'' = ''https://youtu.be/abc'' \<and> length ''https://youtu.be/abc'' = 11 \<and>
       CHR ''/'' \<notin> set ''https://youtu.be/abc'' \<and> CHR ''?'' \<notin> set ''https://youtu.be/abc'') \<or>
    (\<exists>url. simple_URL ''https://youtu.be/abc'' = Some url \<and>
            (hostname url = ''youtu.be'' \<and> ''abc'' = drop 1 (pathname url) \<or>
             (hostname url = ''www.youtube.com'' \<or> hostname url = ''youtube.com'') \<and>
               (pathname url = ''/watch'' \<and> searchParams_get url ''v'' = Some ''abc'' \<or>
                prefix ''/embed/'' (pathname url) \<and> ''abc'' = drop (length ''/embed/'') (pathname url) \<or>
                prefix ''/shorts/'' (pathname url) \<and> ''abc'' = drop (length ''/shorts/'') (pathname url)))))"
proof -
  have ex: "extractVideoId simple_URL ''https://youtu.be/abc'' = Some ''abc''"
    using extractVideoId_url [where newURL = simple_URL, OF _ simple_URL_youtu_be [OF id_chars_example(2)]]
    by simp
  show ?thesis
    by (rule conjI [OF ex extractVideoId_success [OF ex]])
qed

subsection \<open>Segment Normalizer\<close>

lemmas text_blocks =
  extractTextFromSegment_def renderer_block_def cue_block_def text_block_def runs_block_def
  snippet_block_def first_cue_renderer_def

lemmas digits_defs = parseFloat_digits_def is_digit_def digit_value_def

lemma extractText_renderer:
  "extractTextFromSegment (tsr_as_segment tsr) =
     (case first_return
             [truthy_string (tsr_text tsr),
              map_option joinRuns (tsr_runs tsr),
              truthy_string (Option.bind (tsr_snippet tsr) snippet_text),
              map_option joinRuns (Option.bind (tsr_snippet tsr) snippet_runs)] of
        Some t \<Rightarrow> t
      | None \<Rightarrow> [])"
  by (cases "tsr_text tsr"; cases "tsr_snippet tsr"; cases "tsr_runs tsr")
     (simp_all add: text_blocks tsr_as_segment_def truthy_string_def)

lemma first_return_append_None: "first_return (xs @ [None]) = first_return xs"
  by (induction xs rule: first_return.induct) simp_all

text \<open>
  \<open>extractTextFromSegment\<close> on a whole segment that carries a renderer and no other
  text source of its own: the renderer block decides.
\<close>

lemma extractText_wrapped:
  assumes "transcript_segment_renderer segment = Some tsr"
    and "first_cue_renderer segment = None" and "seg_text segment = None"
    and "seg_runs segment = None" and "seg_snippet segment = None"
  shows "extractTextFromSegment segment =
     (case first_return
             [truthy_string (Option.bind (tsr_snippet tsr) snippet_text),
              truthy_string (tsr_text tsr),
              map_option joinRuns (Option.bind (tsr_snippet tsr) snippet_runs),
              map_option joinRuns (tsr_runs tsr)] of
        Some t \<Rightarrow> t
      | None \<Rightarrow> [])"
proof -
  have "renderer_block segment @ cue_block segment @ text_block segment @
          runs_block segment @ snippet_block segment =
        [truthy_string (Option.bind (tsr_snippet tsr) snippet_text),
         truthy_string (tsr_text tsr),
         map_option joinRuns (Option.bind (tsr_snippet tsr) snippet_runs),
         map_option joinRuns (tsr_runs tsr)] @ [None]"
    using assms
    by (simp add: renderer_block_def cue_block_def text_block_def runs_block_def
        snippet_block_def)
  then show ?thesis
    by (simp only: extractTextFromSegment_def first_return_append_None)
qed

text \<open>
  The renderer block on the whole segment and the blocks that the handler reaches with
  the unwrapped renderer give the same text, unless \<open>snippet.text\<close> competes with
  \<open>text\<close> or \<open>runs\<close>, or \<open>snippet.runs\<close> with \<open>runs\<close>.
\<close>

lemma renderer_text_common:
  assumes "transcript_segment_renderer segment = Some tsr"
    and "first_cue_renderer segment = None" and "seg_text segment = None"
    and "seg_runs segment = None" and "seg_snippet segment = None"
    and "truthy_string (Option.bind (tsr_snippet tsr) snippet_text) = None \<and>
           (truthy_string (tsr_text tsr) \<noteq> None \<or> tsr_runs tsr = None \<or>
            Option.bind (tsr_snippet tsr) snippet_runs = None) \<or>
         truthy_string (tsr_text tsr) = None \<and> tsr_runs tsr = None"
  shows "extractTextFromSegment segment = extractTextFromSegment (tsr_as_segment tsr)"
  using assms(6) unfolding extractText_wrapped [OF assms(1-5)] extractText_renderer
  by (cases "truthy_string (tsr_text tsr)"; cases "tsr_runs tsr";
      cases "truthy_string (Option.bind (tsr_snippet tsr) snippet_text)";
      cases "Option.bind (tsr_snippet tsr) snippet_runs") simp_all

text \<open>
  Claim C3 gives the text of a renderer segment the priority \<open>snippet.text\<close>,
  \<open>snippet.runs\<close>, \<open>text\<close>, \<open>runs\<close> (\<open>renderer_text_spec\<close>). The code puts the
  renderer's \<open>text\<close> before \<open>snippet.runs\<close>: a renderer with
  \<open>snippet.runs = [{text: "S"}]\<close> and \<open>text = "B"\<close> is normalized to the text \<open>B\<close>,
  where the claimed priority gives \<open>S\<close>; the renderer block of
  \<open>extractTextFromSegment\<close>, on the whole segment, gives \<open>B\<close> too.
\<close>

theorem renderer_text_before_snippet_runs:
  "ts_text (formatSegment parseFloat_digits
      \<lparr>transcript_segment_renderer =
         Some \<lparr>tsr_snippet = Some \<lparr>snippet_text = None, snippet_runs = Some [\<lparr>run_text = ''S''\<rparr>]\<rparr>,
               tsr_text = Some ''B'', tsr_runs = None,
               tsr_start_ms = Some ''1000'', tsr_end_ms = Some ''2500''\<rparr>,
       cue_group_renderer = None, seg_text = None, seg_runs = None, seg_snippet = None,
       seg_start_ms = None, seg_end_ms = None, seg_duration_ms = None\<rparr>) = ''B'' \<and>
   decodeHtmlEntities (Some (renderer_text_spec
      \<lparr>tsr_snippet = Some \<lparr>snippet_text = None, snippet_runs = Some [\<lparr>run_text = ''S''\<rparr>]\<rparr>,
        tsr_text = Some ''B'', tsr_runs = None,
        tsr_start_ms = Some ''1000'', tsr_end_ms = Some ''2500''\<rparr>)) = ''S'' \<and>
   extractTextFromSegment
      \<lparr>transcript_segment_renderer =
         Some \<lparr>tsr_snippet = Some \<lparr>snippet_text = None, snippet_runs = Some [\<lparr>run_text = ''S''\<rparr>]\<rparr>,
               tsr_text = Some ''B'', tsr_runs = None,
               tsr_start_ms = Some ''1000'', tsr_end_ms = Some ''2500''\<rparr>,
       cue_group_renderer = None, seg_text = None, seg_runs = None, seg_snippet = None,
       seg_start_ms = None, seg_end_ms = None, seg_duration_ms = None\<rparr> = ''B''"
proof (intro conjI)
  show "ts_text (formatSegment parseFloat_digits
      \<lparr>transcript_segment_renderer =
         Some \<lparr>tsr_snippet = Some \<lparr>snippet_text = None, snippet_runs = Some [\<lparr>run_text = ''S''\<rparr>]\<rparr>,
               tsr_text = Some ''B'', tsr_runs = None,
               tsr_start_ms = Some ''1000'', tsr_end_ms = Some ''2500''\<rparr>,
       cue_group_renderer = None, seg_text = None, seg_runs = None, seg_snippet = None,
       seg_start_ms = None, seg_end_ms = None, seg_duration_ms = None\<rparr>) = ''B''"
    by (simp add: formatSegment_def format_renderer_def extractText_renderer
        truthy_string_def decodeHtmlEntities_def)
  show "decodeHtmlEntities (Some (renderer_text_spec
      \<lparr>tsr_snippet = Some \<lparr>snippet_text = None, snippet_runs = Some [\<lparr>run_text = ''S''\<rparr>]\<rparr>,
        tsr_text = Some ''B'', tsr_runs = None,
        tsr_start_ms = Some ''1000'', tsr_end_ms = Some ''2500''\<rparr>)) = ''S''"
    by (simp add: renderer_text_spec_def truthy_string_def joinRuns_def decodeHtmlEntities_def)
  show "extractTextFromSegment
      \<lparr>transcript_segment_renderer =
         Some \<lparr>tsr_snippet = Some \<lparr>snippet_text = None, snippet_runs = Some [\<lparr>run_text = ''S''\<rparr>]\<rparr>,
               tsr_text = Some ''B'', tsr_runs = None,
               tsr_start_ms = Some ''1000'', tsr_end_ms = Some ''2500''\<rparr>,
       cue_group_renderer = None, seg_text = None, seg_runs = None, seg_snippet = None,
       seg_start_ms = None, seg_end_ms = None, seg_duration_ms = None\<rparr> = ''B''"
    by (simp add: text_blocks truthy_string_def)
qed

text \<open>
  Claim C3, amended. For a raw segment that carries a \<open>transcript_segment_renderer\<close>
  sub-object, in both variants, the offset is \<open>start_ms / 1000\<close> and the duration
  \<open>(end_ms - start_ms) / 1000\<close>, where a field that is missing or empty is read as the
  string \<open>0\<close>. The text is the Entity Decoder applied to
  \<^item> the renderer's \<open>text\<close>, when it is a non-empty string and \<open>snippet.text\<close> is
    missing or empty, also when \<open>snippet.runs\<close> is there;
  \<^item> \<open>snippet.text\<close> if it is a non-empty string, else \<open>snippet.runs\<close> joined if it is
    there, else the empty string, when the renderer has no non-empty \<open>text\<close> and no
    \<open>runs\<close>;
  \<^item> \<open>runs\<close> joined if it is there, else the empty string, when the renderer has no
    non-empty \<open>text\<close> and the snippet neither a non-empty \<open>text\<close> nor \<open>runs\<close>.
  Which source gives the text when \<open>snippet.text\<close> competes with \<open>text\<close> or \<open>runs\<close>,
  or \<open>snippet.runs\<close> with \<open>runs\<close>, is not stated.
\<close>

theorem renderer_segment_normalized:
  assumes "transcript_segment_renderer segment = Some tsr"
  shows "ts_offset (formatSegment parseFloat segment) =
           js_div1000 (parseFloat (or_zero (tsr_start_ms tsr))) \<and>
         ts_duration (formatSegment parseFloat segment) =
           js_div1000 (js_sub (parseFloat (or_zero (tsr_end_ms tsr)))
                              (parseFloat (or_zero (tsr_start_ms tsr)))) \<and>
         or_zero None = ''0'' \<and> or_zero (Some []) = ''0'' \<and>
         formatSegment_part000 parseFloat segment = formatSegment parseFloat segment \<and>
         (truthy_string (Option.bind (tsr_snippet tsr) snippet_text) = None \<and>
          truthy_string (tsr_text tsr) = Some t \<longrightarrow>
            ts_text (formatSegment parseFloat segment) = decodeHtmlEntities (Some t)) \<and>
         (truthy_string (tsr_text tsr) = None \<and> tsr_runs tsr = None \<longrightarrow>
            ts_text (formatSegment parseFloat segment) =
              decodeHtmlEntities (Some
                (case first_return
                        [truthy_string (Option.bind (tsr_snippet tsr) snippet_text),
                         map_option joinRuns (Option.bind (tsr_snippet tsr) snippet_runs)] of
                   Some s \<Rightarrow> s
                 | None \<Rightarrow> []))) \<and>
         (truthy_string (Option.bind (tsr_snippet tsr) snippet_text) = None \<and>
          Option.bind (tsr_snippet tsr) snippet_runs = None \<and>
          truthy_string (tsr_text tsr) = None \<longrightarrow>
            ts_text (formatSegment parseFloat segment) =
              decodeHtmlEntities (Some
                (case tsr_runs tsr of Some runs \<Rightarrow> joinRuns runs | None \<Rightarrow> [])))"
proof -
  have f: "formatSegment parseFloat segment = format_renderer parseFloat tsr"
    using assms by (simp add: formatSegment_def)
  have p: "formatSegment_part000 parseFloat segment = format_renderer parseFloat tsr"
    using assms by (simp add: formatSegment_part000_def)
  have z: "or_zero None = ''0'' \<and> or_zero (Some []) = ''0''"
    by (simp add: or_zero_def truthy_string_def)
  have tx: "ts_text (format_renderer parseFloat tsr) =
               decodeHtmlEntities (Some (extractTextFromSegment (tsr_as_segment tsr)))"
    by (simp add: format_renderer_def)
  show ?thesis
    unfolding f p tx extractText_renderer using z
    by (cases "tsr_runs tsr") (auto simp: format_renderer_def)
qed


theorem renderer_segment_normalized_witness:
  "transcript_segment_renderer
      \<lparr>transcript_segment_renderer =
         Some \<lparr>tsr_snippet = Some \<lparr>snippet_text = None, snippet_runs = Some [\<lparr>run_text = ''S''\<rparr>]\<rparr>,
               tsr_text = Some ''B'', tsr_runs = None,
               tsr_start_ms = Some ''1000'', tsr_end_ms = Some ''2500''\<rparr>,
       cue_group_renderer = None, seg_text = None, seg_runs = None, seg_snippet = None,
       seg_start_ms = None, seg_end_ms = None, seg_duration_ms = None\<rparr> =
     Some \<lparr>tsr_snippet = Some \<lparr>snippet_text = None, snippet_runs = Some [\<lparr>run_text = ''S''\<rparr>]\<rparr>,
        tsr_text = Some ''B'', tsr_runs = None,
        tsr_start_ms = Some ''1000'', tsr_end_ms = Some ''2500''\<rparr> \<and>
   formatSegment parseFloat_digits
      \<lparr>transcript_segment_renderer =
         Some \<lparr>tsr_snippet = Some \<lparr>snippet_text = None, snippet_runs = Some [\<lparr>run_text = ''S''\<rparr>]\<rparr>,
               tsr_text = Some ''B'', tsr_runs = None,
               tsr_start_ms = Some ''1000'', tsr_end_ms = Some ''2500''\<rparr>,
       cue_group_renderer = None, seg_text = None, seg_runs = None, seg_snippet = None,
       seg_start_ms = None, seg_end_ms = None, seg_duration_ms = None\<rparr> =
     \<lparr>ts_text = ''B'', ts_offset = Fin 1, ts_duration = Fin (3 / 2)\<rparr> \<and>
   transcript_segment_renderer
      \<lparr>transcript_segment_renderer =
         Some \<lparr>tsr_snippet = Some \<lparr>snippet_text = Some ''Hi'', snippet_runs = None\<rparr>,
               tsr_text = None, tsr_runs = None,
               tsr_start_ms = Some ''1000'', tsr_end_ms = Some ''2500''\<rparr>,
       cue_group_renderer = None, seg_text = None, seg_runs = None, seg_snippet = None,
       seg_start_ms = None, seg_end_ms = None, seg_duration_ms = None\<rparr> =
     Some \<lparr>tsr_snippet = Some \<lparr>snippet_text = Some ''Hi'', snippet_runs = None\<rparr>,
        tsr_text = None, tsr_runs = None,
        tsr_start_ms = Some ''1000'', tsr_end_ms = Some ''2500''\<rparr> \<and>
   formatSegment parseFloat_digits
      \<lparr>transcript_segment_renderer =
         Some \<lparr>tsr_snippet = Some \<lparr>snippet_text = Some ''Hi'', snippet_runs = None\<rparr>,
               tsr_text = None, tsr_runs = None,
               tsr_start_ms = Some ''1000'', tsr_end_ms = Some ''2500''\<rparr>,
       cue_group_renderer = None, seg_text = None, seg_runs = None, seg_snippet = None,
       seg_start_ms = None, seg_end_ms = None, seg_duration_ms = None\<rparr> =
     \<lparr>ts_text = ''Hi'', ts_offset = Fin 1, ts_duration = Fin (3 / 2)\<rparr> \<and>
   transcript_segment_renderer
      \<lparr>transcript_segment_renderer =
         Some \<lparr>tsr_snippet = None, tsr_text = None,
               tsr_runs = Some [\<lparr>run_text = ''Hel''\<rparr>, \<lparr>run_text = ''lo''\<rparr>],
               tsr_start_ms = None, tsr_end_ms = None\<rparr>,
       cue_group_renderer = None, seg_text = None, seg_runs = None, seg_snippet = None,
       seg_start_ms = None, seg_end_ms = None, seg_duration_ms = None\<rparr> =
     Some \<lparr>tsr_snippet = None, tsr_text = None,
        tsr_runs = Some [\<lparr>run_text = ''Hel''\<rparr>, \<lparr>run_text = ''lo''\<rparr>],
        tsr_start_ms = None, tsr_end_ms = None\<rparr> \<and>
   formatSegment parseFloat_digits
      \<lparr>transcript_segment_renderer =
         Some \<lparr>tsr_snippet = None, tsr_text = None,
               tsr_runs = Some [\<lparr>run_text = ''Hel''\<rparr>, \<lparr>run_text = ''lo''\<rparr>],
               tsr_start_ms = None, tsr_end_ms = None\<rparr>,
       cue_group_renderer = None, seg_text = None, seg_runs = None, seg_snippet = None,
       seg_start_ms = None, seg_end_ms = None, seg_duration_ms = None\<rparr> =
     \<lparr>ts_text = ''Hello'', ts_offset = Fin 0, ts_duration = Fin 0\<rparr>"
proof -
  have 1: "transcript_segment_renderer
      \<lparr>transcript_segment_renderer =
         Some \<lparr>tsr_snippet = Some \<lparr>snippet_text = None, snippet_runs = Some [\<lparr>run_text = ''S''\<rparr>]\<rparr>,
               tsr_text = Some ''B'', tsr_runs = None,
               tsr_start_ms = Some ''1000'', tsr_end_ms = Some ''2500''\<rparr>,
       cue_group_renderer = None, seg_text = None, seg_runs = None, seg_snippet = None,
       seg_start_ms = None, seg_end_ms = None, seg_duration_ms = None\<rparr> =
     Some \<lparr>tsr_snippet = Some \<lparr>snippet_text = None, snippet_runs = Some [\<lparr>run_text = ''S''\<rparr>]\<rparr>,
        tsr_text = Some ''B'', tsr_runs = None,
        tsr_start_ms = Some ''1000'', tsr_end_ms = Some ''2500''\<rparr>"
    by simp
  have 2: "transcript_segment_renderer
      \<lparr>transcript_segment_renderer =
         Some \<lparr>tsr_snippet = Some \<lparr>snippet_text = Some ''Hi'', snippet_runs = None\<rparr>,
               tsr_text = None, tsr_runs = None,
               tsr_start_ms = Some ''1000'', tsr_end_ms = Some ''2500''\<rparr>,
       cue_group_renderer = None, seg_text = None, seg_runs = None, seg_snippet = None,
       seg_start_ms = None, seg_end_ms = None, seg_duration_ms = None\<rparr> =
     Some \<lparr>tsr_snippet = Some \<lparr>snippet_text = Some ''Hi'', snippet_runs = None\<rparr>,
        tsr_text = None, tsr_runs = None,
        tsr_start_ms = Some ''1000'', tsr_end_ms = Some ''2500''\<rparr>"
    by simp
  have 3: "transcript_segment_renderer
      \<lparr>transcript_segment_renderer =
         Some \<lparr>tsr_snippet = None, tsr_text = None,
               tsr_runs = Some [\<lparr>run_text = ''Hel''\<rparr>, \<lparr>run_text = ''lo''\<rparr>],
               tsr_start_ms = None, tsr_end_ms = None\<rparr>,
       cue_group_renderer = None, seg_text = None, seg_runs = None, seg_snippet = None,
       seg_start_ms = None, seg_end_ms = None, seg_duration_ms = None\<rparr> =
     Some \<lparr>tsr_snippet = None, tsr_text = None,
        tsr_runs = Some [\<lparr>run_text = ''Hel''\<rparr>, \<lparr>run_text = ''lo''\<rparr>],
        tsr_start_ms = None, tsr_end_ms = None\<rparr>"
    by simp
  have eq: "s = \<lparr>ts_text = ts_text s, ts_offset = ts_offset s, ts_duration = ts_duration s\<rparr>"
    for s :: TranscriptSegment
    by simp
  have a: "formatSegment parseFloat_digits
      \<lparr>transcript_segment_renderer =
         Some \<lparr>tsr_snippet = Some \<lparr>snippet_text = None, snippet_runs = Some [\<lparr>run_text = ''S''\<rparr>]\<rparr>,
               tsr_text = Some ''B'', tsr_runs = None,
               tsr_start_ms = Some ''1000'', tsr_end_ms = Some ''2500''\<rparr>,
       cue_group_renderer = None, seg_text = None, seg_runs = None, seg_snippet = None,
       seg_start_ms = None, seg_end_ms = None, seg_duration_ms = None\<rparr> =
     \<lparr>ts_text = ''B'', ts_offset = Fin 1, ts_duration = Fin (3 / 2)\<rparr>"
    using renderer_segment_normalized [OF 1, of parseFloat_digits "''B''"]
    by (subst eq)
       (simp add: truthy_string_def or_zero_def digits_defs decodeHtmlEntities_def)
  have b: "formatSegment parseFloat_digits
      \<lparr>transcript_segment_renderer =
         Some \<lparr>tsr_snippet = Some \<lparr>snippet_text = Some ''Hi'', snippet_runs = None\<rparr>,
               tsr_text = None, tsr_runs = None,
               tsr_start_ms = Some ''1000'', tsr_end_ms = Some ''2500''\<rparr>,
       cue_group_renderer = None, seg_text = None, seg_runs = None, seg_snippet = None,
       seg_start_ms = None, seg_end_ms = None, seg_duration_ms = None\<rparr> =
     \<lparr>ts_text = ''Hi'', ts_offset = Fin 1, ts_duration = Fin (3 / 2)\<rparr>"
    using renderer_segment_normalized [OF 2, of parseFloat_digits]
    by (subst eq)
       (simp add: truthy_string_def or_zero_def digits_defs decodeHtmlEntities_def)
  have c: "formatSegment parseFloat_digits
      \<lparr>transcript_segment_renderer =
         Some \<lparr>tsr_snippet = None, tsr_text = None,
               tsr_runs = Some [\<lparr>run_text = ''Hel''\<rparr>, \<lparr>run_text = ''lo''\<rparr>],
               tsr_start_ms = None, tsr_end_ms = None\<rparr>,
       cue_group_renderer = None, seg_text = None, seg_runs = None, seg_snippet = None,
       seg_start_ms = None, seg_end_ms = None, seg_duration_ms = None\<rparr> =
     \<lparr>ts_text = ''Hello'', ts_offset = Fin 0, ts_duration = Fin 0\<rparr>"
    using renderer_segment_normalized [OF 3, of parseFloat_digits]
    by (subst eq)
       (simp add: truthy_string_def or_zero_def digits_defs decodeHtmlEntities_def joinRuns_def)
  from 1 a 2 b 3 c show ?thesis
    by (intro conjI)
qed

text \<open>
  The case C3 (amended) leaves out. \<open>extractTextFromSegment\<close> has a block for a
  segment that carries a renderer, which tries \<open>snippet.text\<close> first; the handler
  passes the unwrapped renderer, which has no \<open>transcript_segment_renderer\<close> key, so
  that block is skipped and the blocks for \<open>text\<close>, \<open>runs\<close> and \<open>snippet\<close> decide. For
  a renderer with \<open>snippet.text = "A"\<close> and \<open>text = "B"\<close> the handler emits \<open>B\<close>, and
  the function on the whole segment returns \<open>A\<close>.
\<close>

lemma renderer_block_bypassed:
  "ts_text (formatSegment parseFloat_digits
      \<lparr>transcript_segment_renderer =
         Some \<lparr>tsr_snippet = Some \<lparr>snippet_text = Some ''A'', snippet_runs = None\<rparr>,
               tsr_text = Some ''B'', tsr_runs = None,
               tsr_start_ms = Some ''1000'', tsr_end_ms = Some ''2500''\<rparr>,
       cue_group_renderer = None, seg_text = None, seg_runs = None, seg_snippet = None,
       seg_start_ms = None, seg_end_ms = None, seg_duration_ms = None\<rparr>) = ''B'' \<and>
   extractTextFromSegment
      \<lparr>transcript_segment_renderer =
         Some \<lparr>tsr_snippet = Some \<lparr>snippet_text = Some ''A'', snippet_runs = None\<rparr>,
               tsr_text = Some ''B'', tsr_runs = None,
               tsr_start_ms = Some ''1000'', tsr_end_ms = Some ''2500''\<rparr>,
       cue_group_renderer = None, seg_text = None, seg_runs = None, seg_snippet = None,
       seg_start_ms = None, seg_end_ms = None, seg_duration_ms = None\<rparr> = ''A''"
proof (intro conjI)
  show "ts_text (formatSegment parseFloat_digits
      \<lparr>transcript_segment_renderer =
         Some \<lparr>tsr_snippet = Some \<lparr>snippet_text = Some ''A'', snippet_runs = None\<rparr>,
               tsr_text = Some ''B'', tsr_runs = None,
               tsr_start_ms = Some ''1000'', tsr_end_ms = Some ''2500''\<rparr>,
       cue_group_renderer = None, seg_text = None, seg_runs = None, seg_snippet = None,
       seg_start_ms = None, seg_end_ms = None, seg_duration_ms = None\<rparr>) = ''B''"
    by (simp add: formatSegment_def format_renderer_def extractText_renderer
        truthy_string_def decodeHtmlEntities_def)
  show "extractTextFromSegment
      \<lparr>transcript_segment_renderer =
         Some \<lparr>tsr_snippet = Some \<lparr>snippet_text = Some ''A'', snippet_runs = None\<rparr>,
               tsr_text = Some ''B'', tsr_runs = None,
               tsr_start_ms = Some ''1000'', tsr_end_ms = Some ''2500''\<rparr>,
       cue_group_renderer = None, seg_text = None, seg_runs = None, seg_snippet = None,
       seg_start_ms = None, seg_end_ms = None, seg_duration_ms = None\<rparr> = ''A''"
    by (simp add: text_blocks truthy_string_def)
qed

text \<open>
  Claim C2: for a segment of the generic shape the duration is \<open>duration_ms / 1000\<close> when
  \<open>duration_ms\<close> is there. In \<open>src/index.ts\<close> the generic branch never reads
  \<open>duration_ms\<close>: the segment \<open>{text: "Hi", start_ms: "1000", duration_ms: "500"}\<close> gets
  the duration 0 there, and 0.5 in the other variant, which does what the claim says
  (\<open>generic_timing_part000\<close> below).
\<close>

theorem generic_duration_ms_ignored:
  "formatSegment parseFloat_digits
      \<lparr>transcript_segment_renderer = None, cue_group_renderer = None,
       seg_text = Some (TextString ''Hi''), seg_runs = None, seg_snippet = None,
       seg_start_ms = Some ''1000'', seg_end_ms = None, seg_duration_ms = Some ''500''\<rparr> =
     \<lparr>ts_text = ''Hi'', ts_offset = Fin 1, ts_duration = Fin 0\<rparr> \<and>
   formatSegment_part000 parseFloat_digits
      \<lparr>transcript_segment_renderer = None, cue_group_renderer = None,
       seg_text = Some (TextString ''Hi''), seg_runs = None, seg_snippet = None,
       seg_start_ms = Some ''1000'', seg_end_ms = None, seg_duration_ms = Some ''500''\<rparr> =
     \<lparr>ts_text = ''Hi'', ts_offset = Fin 1, ts_duration = Fin (1 / 2)\<rparr>"
  by (simp add: formatSegment_def formatSegment_part000_def format_generic_def
      format_generic_part000_def text_blocks truthy_string_def digits_defs decodeHtmlEntities_def)

text \<open>
  The timing of a generic segment in \<open>src/unnamed/part_000\<close>, as C2 states it, a field
  being there when it is a non-empty string.
\<close>

lemma generic_timing_part000:
  assumes "transcript_segment_renderer segment = None" "first_cue_renderer segment = None"
  shows "ts_offset (formatSegment_part000 parseFloat segment) =
           (case truthy_string (seg_start_ms segment) of
              Some start_ms \<Rightarrow> js_div1000 (parseFloat start_ms)
            | None \<Rightarrow> Fin 0)"
    and "truthy_string (seg_duration_ms segment) = Some duration_ms \<Longrightarrow>
           ts_duration (formatSegment_part000 parseFloat segment) =
             js_div1000 (parseFloat duration_ms)"
    and "truthy_string (seg_duration_ms segment) = None \<Longrightarrow>
         truthy_string (seg_start_ms segment) = Some start_ms \<Longrightarrow>
         truthy_string (seg_end_ms segment) = Some end_ms \<Longrightarrow>
           ts_duration (formatSegment_part000 parseFloat segment) =
             js_div1000 (js_sub (parseFloat end_ms) (parseFloat start_ms))"
    and "truthy_string (seg_duration_ms segment) = None \<Longrightarrow>
         truthy_string (seg_start_ms segment) = None \<or> truthy_string (seg_end_ms segment) = None \<Longrightarrow>
           ts_duration (formatSegment_part000 parseFloat segment) = Fin 0"
  using assms
  by (auto simp: formatSegment_part000_def format_generic_part000_def split: option.splits)

text \<open>
  The two variants normalize a generic segment alike when it has no \<open>duration_ms\<close>.
\<close>

lemma generic_timing_without_duration_ms:
  assumes "transcript_segment_renderer segment = None" "first_cue_renderer segment = None"
    and "truthy_string (seg_duration_ms segment) = None"
  shows "formatSegment parseFloat segment = formatSegment_part000 parseFloat segment"
  using assms
  by (simp add: formatSegment_def formatSegment_part000_def format_generic_def
      format_generic_part000_def)


subsection \<open>Responses\<close>

lemmas handler_defs =
  handler_def try_block_def innertube_attempt_def catch_block_def fetchTranscriptWithYtDlp_def
  formatTranscript_def title_or_untitled_def error_response_def error_id_response_def
  no_transcript_response_def transcript_response_def Error_def

lemma extractVideoId_example:
  "extractVideoId simple_URL ''dQw4w9WgXcQ'' = Some ''dQw4w9WgXcQ''"
  by (simp add: extractVideoId_def)

text \<open>
  Claim C4 says that every segment of a 200 response has a non-empty text, an offset
  that is at least 0 and a duration that is at least 0. The times are computed without
  a check of their sign: a renderer segment with \<open>start_ms = "1000"\<close> and no \<open>end_ms\<close>
  (read as 0) is emitted with the duration \<open>-1\<close>.
\<close>

theorem primary_negative_duration:
  "handler simple_URL parseFloat_digits (Some ''dQw4w9WgXcQ'')
      (Transcript_data (Some ''Title'')
         (Some [\<lparr>transcript_segment_renderer =
                   Some \<lparr>tsr_snippet = Some \<lparr>snippet_text = Some ''Hi'', snippet_runs = None\<rparr>,
                         tsr_text = None, tsr_runs = None,
                         tsr_start_ms = Some ''1000'', tsr_end_ms = None\<rparr>,
                 cue_group_renderer = None, seg_text = None, seg_runs = None, seg_snippet = None,
                 seg_start_ms = None, seg_end_ms = None, seg_duration_ms = None\<rparr>]))
      No_vtt_file =
     \<lparr>status = 200,
      body = \<lparr>body_error = None, body_videoId = None, body_videoTitle = Some ''Title'',
              body_transcript =
                Some [\<lparr>ts_text = ''Hi'', ts_offset = Fin 1, ts_duration = Fin (- 1)\<rparr>]\<rparr>\<rparr> \<and>
   \<not> js_ge0 (Fin (- 1))"
  by (simp add: handler_defs extractVideoId_example formatSegment_def format_renderer_def
      extractText_renderer truthy_string_def or_zero_def digits_defs decodeHtmlEntities_def)

lemma status_200_cases:
  "status (error_response code err) = 200 \<longleftrightarrow> code = 200"
  "status (error_id_response code err videoId) = 200 \<longleftrightarrow> code = 200"
  "status (no_transcript_response videoTitle) \<noteq> 200"
  "status (transcript_response videoTitle t) = 200"
  "body_transcript (body (transcript_response videoTitle t)) = Some t"
  by (simp_all add: error_response_def error_id_response_def no_transcript_response_def
      transcript_response_def)

lemma catch_block_status: "status (catch_block err videoId) \<noteq> 200"
  by (simp add: catch_block_def status_200_cases)

lemma filter_nonempty_all:
  "list_all (\<lambda>s. ts_text s \<noteq> []) (filter (\<lambda>s. ts_text s \<noteq> []) xs)"
  by (simp add: list_all_iff)

text \<open>
  Claim C4, amended. In a 200 response of the variant with the fallback the transcript
  is not empty, and it is either
  the primary fetcher's, which is the normalized raw segments without those whose text
  is empty, in their order, so every one of its segments has a non-empty text; or the
  fallback fetcher's, which has for every cue of the parsed track, in order, the cue's
  text, its start as offset and end minus start as duration.
\<close>

theorem ok_response_segments:
  assumes "handler newURL parseFloat query_id innertube ytdlp = response"
    and "status response = 200"
  shows "\<exists>segments. body_transcript (body response) = Some segments \<and> segments \<noteq> [] \<and>
           ((\<exists>title raw. innertube = Transcript_data title (Some raw) \<and>
               segments = filter (\<lambda>s. ts_text s \<noteq> []) (map (formatSegment parseFloat) raw) \<and>
               list_all (\<lambda>s. ts_text s \<noteq> []) segments) \<or>
            (\<exists>parsed_cues. ytdlp = Vtt_parsed (Some parsed_cues) \<and>
               segments =
                 map (\<lambda>cue. \<lparr>ts_text = vtt_text cue, ts_offset = vtt_start cue,
                               ts_duration = js_sub (vtt_end cue) (vtt_start cue)\<rparr>)
                     parsed_cues))"
proof -
  obtain videoUrlOrId where q: "truthy_string query_id = Some videoUrlOrId"
    using assms by (auto simp: handler_def status_200_cases split: option.splits)
  obtain videoId where v: "truthy_string (extractVideoId newURL videoUrlOrId) = Some videoId"
    using assms q by (auto simp: handler_def status_200_cases split: option.splits)
  have r: "try_block parseFloat innertube ytdlp = Inr response"
    using assms q v by (auto simp: handler_def catch_block_status split: sum.splits)
  obtain videoTitle primaryTranscript
    where p: "innertube_attempt parseFloat innertube = (videoTitle, primaryTranscript)"
    by (cases "innertube_attempt parseFloat innertube")
  show ?thesis
  proof (cases "primaryTranscript = []")
    case False
    then have resp: "response = transcript_response videoTitle primaryTranscript"
      using r p by (simp add: try_block_def)
    from False p obtain title raw where
      i: "innertube = Transcript_data title (Some raw)" and
      t: "primaryTranscript = filter (\<lambda>s. ts_text s \<noteq> []) (map (formatSegment parseFloat) raw)"
      by (auto simp: innertube_attempt_def formatTranscript_def
          split: innertube_outcome.splits option.splits)
    show ?thesis
      using False resp i t by (simp add: status_200_cases filter_nonempty_all)
  next
    case True
    with r p obtain fallbackTranscript where
      f: "fetchTranscriptWithYtDlp ytdlp = Inr fallbackTranscript" and
      ne: "fallbackTranscript \<noteq> []" and
      resp: "response = transcript_response videoTitle fallbackTranscript"
      using assms(2)
      by (auto simp: try_block_def status_200_cases split: sum.splits if_splits)
    from f ne obtain parsed_cues where
      "ytdlp = Vtt_parsed (Some parsed_cues)" "fallbackTranscript = map cue_segment parsed_cues"
      by (auto simp: fetchTranscriptWithYtDlp_def split: ytdlp_outcome.splits option.splits)
    then show ?thesis
      using ne resp by (auto simp: status_200_cases cue_segment_def)
  qed
qed


theorem ok_response_segments_witness:
  "handler simple_URL parseFloat_digits (Some ''dQw4w9WgXcQ'')
      (Transcript_data (Some ''Title'')
         (Some [\<lparr>transcript_segment_renderer = None, cue_group_renderer = None,
                 seg_text = Some (TextString ''Hi''), seg_runs = None, seg_snippet = None,
                 seg_start_ms = Some ''1000'', seg_end_ms = Some ''2500'',
                 seg_duration_ms = None\<rparr>,
                \<lparr>transcript_segment_renderer = None, cue_group_renderer = None,
                 seg_text = None, seg_runs = None, seg_snippet = None,
                 seg_start_ms = Some ''2500'', seg_end_ms = Some ''3000'',
                 seg_duration_ms = None\<rparr>]))
      No_vtt_file =
     \<lparr>status = 200,
      body = \<lparr>body_error = None, body_videoId = None, body_videoTitle = Some ''Title'',
              body_transcript =
                Some [\<lparr>ts_text = ''Hi'', ts_offset = Fin 1, ts_duration = Fin (3 / 2)\<rparr>]\<rparr>\<rparr> \<and>
   status
     \<lparr>status = 200,
      body = \<lparr>body_error = None, body_videoId = None, body_videoTitle = Some ''Title'',
              body_transcript =
                Some [\<lparr>ts_text = ''Hi'', ts_offset = Fin 1, ts_duration = Fin (3 / 2)\<rparr>]\<rparr>\<rparr> = 200 \<and>
   (\<exists>segments.
      body_transcript (body
        \<lparr>status = 200,
         body = \<lparr>body_error = None, body_videoId = None, body_videoTitle = Some ''Title'',
                 body_transcript =
                   Some [\<lparr>ts_text = ''Hi'', ts_offset = Fin 1, ts_duration = Fin (3 / 2)\<rparr>]\<rparr>\<rparr>) =
        Some segments \<and> segments \<noteq> [] \<and>
      ((\<exists>title raw.
          Transcript_data (Some ''Title'')
            (Some [\<lparr>transcript_segment_renderer = None, cue_group_renderer = None,
                    seg_text = Some (TextString ''Hi''), seg_runs = None, seg_snippet = None,
                    seg_start_ms = Some ''1000'', seg_end_ms = Some ''2500'',
                    seg_duration_ms = None\<rparr>,
                   \<lparr>transcript_segment_renderer = None, cue_group_renderer = None,
                    seg_text = None, seg_runs = None, seg_snippet = None,
                    seg_start_ms = Some ''2500'', seg_end_ms = Some ''3000'',
                    seg_duration_ms = None\<rparr>]) = Transcript_data title (Some raw) \<and>
          segments = filter (\<lambda>s. ts_text s \<noteq> []) (map (formatSegment parseFloat_digits) raw) \<and>
          list_all (\<lambda>s. ts_text s \<noteq> []) segments) \<or>
       (\<exists>parsed_cues. No_vtt_file = Vtt_parsed (Some parsed_cues) \<and>
          segments =
            map (\<lambda>cue. \<lparr>ts_text = vtt_text cue, ts_offset = vtt_start cue,
                          ts_duration = js_sub (vtt_end cue) (vtt_start cue)\<rparr>)
                parsed_cues)))"
proof -
  have run: "handler simple_URL parseFloat_digits (Some ''dQw4w9WgXcQ'')
      (Transcript_data (Some ''Title'')
         (Some [\<lparr>transcript_segment_renderer = None, cue_group_renderer = None,
                 seg_text = Some (TextString ''Hi''), seg_runs = None, seg_snippet = None,
                 seg_start_ms = Some ''1000'', seg_end_ms = Some ''2500'',
                 seg_duration_ms = None\<rparr>,
                \<lparr>transcript_segment_renderer = None, cue_group_renderer = None,
                 seg_text = None, seg_runs = None, seg_snippet = None,
                 seg_start_ms = Some ''2500'', seg_end_ms = Some ''3000'',
                 seg_duration_ms = None\<rparr>]))
      No_vtt_file =
     \<lparr>status = 200,
      body = \<lparr>body_error = None, body_videoId = None, body_videoTitle = Some ''Title'',
              body_transcript =
                Some [\<lparr>ts_text = ''Hi'', ts_offset = Fin 1, ts_duration = Fin (3 / 2)\<rparr>]\<rparr>\<rparr>"
    by (simp add: handler_defs extractVideoId_example formatSegment_def format_generic_def
        text_blocks truthy_string_def digits_defs decodeHtmlEntities_def)
  have ok: "status
     \<lparr>status = 200,
      body = \<lparr>body_error = None, body_videoId = None, body_videoTitle = Some ''Title'',
              body_transcript =
                Some [\<lparr>ts_text = ''Hi'', ts_offset = Fin 1, ts_duration = Fin (3 / 2)\<rparr>]\<rparr>\<rparr> = 200"
    by simp
  show ?thesis
    by (rule conjI [OF run conjI [OF ok ok_response_segments [OF run ok]]])
qed

text \<open>
  Claim C1 says that the fetch paths return an empty result instead of throwing, and
  that the response is 404 with the video ID in its body whenever the fallback yields
  nothing or throws. The fallback fetcher lets its exceptions through, and when the
  download command fails the response is 500; when the fallback returns no segment the
  response is 404 and its body has the title, not the video ID.
\<close>

theorem fallback_failure_responses:
  "handler simple_URL parseFloat_digits (Some ''dQw4w9WgXcQ'')
      (Info_throws (Error ''network error'')) (Ytdlp_throws (Error ''Command failed: yt-dlp'')) =
     \<lparr>status = 500,
      body = \<lparr>body_error = Some ''Failed to fetch transcript.'',
              body_videoId = Some ''dQw4w9WgXcQ'', body_videoTitle = None,
              body_transcript = None\<rparr>\<rparr> \<and>
   handler simple_URL parseFloat_digits (Some ''dQw4w9WgXcQ'')
      (Info_throws (Error ''network error'')) (Vtt_parsed (Some [])) =
     \<lparr>status = 404,
      body = \<lparr>body_error = Some ''No transcript available for this video.'',
              body_videoId = None, body_videoTitle = Some ''Untitled Video'',
              body_transcript = None\<rparr>\<rparr> \<and>
   fetchTranscriptWithYtDlp (Ytdlp_throws (Error ''Command failed: yt-dlp'')) =
     Inl (Error ''Command failed: yt-dlp'')"
  by (simp add: handler_defs extractVideoId_example truthy_string_def)

text \<open>
  Claim C1, amended. An exception of the primary path is caught in the handler and
  leaves an empty transcript. When the primary path has left an empty transcript:
  if the fallback fetcher returns no segment, the response is 404 with the body
  \<open>{videoTitle, error: "No transcript available for this video."}\<close>, without the video
  ID; the fallback fetcher does not catch its own exceptions, and if it throws an error
  whose message does not contain \<open>No transcript found\<close>, the response is 500 with the
  body \<open>{error: "Failed to fetch transcript.", videoId}\<close>.
\<close>

theorem fallback_outcomes:
  assumes "truthy_string query_id = Some videoUrlOrId"
    and "truthy_string (extractVideoId newURL videoUrlOrId) = Some videoId"
    and "snd (innertube_attempt parseFloat innertube) = []"
  shows "snd (innertube_attempt parseFloat (Info_throws e1)) = [] \<and>
         snd (innertube_attempt parseFloat (Transcript_throws title e1)) = [] \<and>
         (fetchTranscriptWithYtDlp ytdlp = Inr [] \<longrightarrow>
            handler newURL parseFloat query_id innertube ytdlp =
              \<lparr>status = 404,
               body = \<lparr>body_error = Some ''No transcript available for this video.'',
                       body_videoId = None,
                       body_videoTitle = Some (fst (innertube_attempt parseFloat innertube)),
                       body_transcript = None\<rparr>\<rparr>) \<and>
         (\<forall>e. ytdlp = Ytdlp_throws e \<and> \<not> str_includes (message e) ''No transcript found'' \<longrightarrow>
            fetchTranscriptWithYtDlp ytdlp = Inl e \<and>
            handler newURL parseFloat query_id innertube ytdlp =
              \<lparr>status = 500,
               body = \<lparr>body_error = Some ''Failed to fetch transcript.'',
                       body_videoId = Some videoId, body_videoTitle = None,
                       body_transcript = None\<rparr>\<rparr>)"
proof (intro conjI impI allI)
  show "snd (innertube_attempt parseFloat (Info_throws e1)) = []"
    by (simp add: innertube_attempt_def)
  show "snd (innertube_attempt parseFloat (Transcript_throws title e1)) = []"
    by (simp add: innertube_attempt_def)
next
  assume "fetchTranscriptWithYtDlp ytdlp = Inr []"
  then show "handler newURL parseFloat query_id innertube ytdlp =
              \<lparr>status = 404,
               body = \<lparr>body_error = Some ''No transcript available for this video.'',
                       body_videoId = None,
                       body_videoTitle = Some (fst (innertube_attempt parseFloat innertube)),
                       body_transcript = None\<rparr>\<rparr>"
    using assms
    by (cases "innertube_attempt parseFloat innertube")
       (simp add: handler_def try_block_def no_transcript_response_def)
next
  fix e
  assume e: "ytdlp = Ytdlp_throws e \<and> \<not> str_includes (message e) ''No transcript found''"
  then show "fetchTranscriptWithYtDlp ytdlp = Inl e"
    by (simp add: fetchTranscriptWithYtDlp_def)
  have "\<not> str_includes ''Failed to fetch transcript from both sources.'' ''No transcript found''"
    by simp
  then show "handler newURL parseFloat query_id innertube ytdlp =
              \<lparr>status = 500,
               body = \<lparr>body_error = Some ''Failed to fetch transcript.'',
                       body_videoId = Some videoId, body_videoTitle = None,
                       body_transcript = None\<rparr>\<rparr>"
    using assms e
    by (cases "innertube_attempt parseFloat innertube")
       (simp add: handler_def try_block_def catch_block_def fetchTranscriptWithYtDlp_def
          error_id_response_def Error_def del: str_includes.simps)
qed


theorem fallback_outcomes_witness:
  "truthy_string (Some ''dQw4w9WgXcQ'') = Some ''dQw4w9WgXcQ'' \<and>
   truthy_string (extractVideoId simple_URL ''dQw4w9WgXcQ'') = Some ''dQw4w9WgXcQ'' \<and>
   snd (innertube_attempt parseFloat_digits (Info_throws (Error ''network error''))) = [] \<and>
   fetchTranscriptWithYtDlp (Vtt_parsed (Some [])) = Inr [] \<and>
   handler simple_URL parseFloat_digits (Some ''dQw4w9WgXcQ'')
      (Info_throws (Error ''network error'')) (Vtt_parsed (Some [])) =
     \<lparr>status = 404,
      body = \<lparr>body_error = Some ''No transcript available for this video.'',
              body_videoId = None, body_videoTitle = Some ''Untitled Video'',
              body_transcript = None\<rparr>\<rparr> \<and>
   \<not> str_includes (message (Error ''Command failed: yt-dlp'')) ''No transcript found'' \<and>
   handler simple_URL parseFloat_digits (Some ''dQw4w9WgXcQ'')
      (Info_throws (Error ''network error'')) (Ytdlp_throws (Error ''Command failed: yt-dlp'')) =
     \<lparr>status = 500,
      body = \<lparr>body_error = Some ''Failed to fetch transcript.'',
              body_videoId = Some ''dQw4w9WgXcQ'', body_videoTitle = None,
              body_transcript = None\<rparr>\<rparr>"
proof -
  have q: "truthy_string (Some ''dQw4w9WgXcQ'') = Some ''dQw4w9WgXcQ''"
    by (simp add: truthy_string_def)
  have v: "truthy_string (extractVideoId simple_URL ''dQw4w9WgXcQ'') = Some ''dQw4w9WgXcQ''"
    by (simp add: extractVideoId_example truthy_string_def)
  have p: "snd (innertube_attempt parseFloat_digits (Info_throws (Error ''network error''))) = []"
    by (simp add: innertube_attempt_def)
  have empty: "fetchTranscriptWithYtDlp (Vtt_parsed (Some [])) = Inr []"
    by (simp add: fetchTranscriptWithYtDlp_def)
  have msg: "\<not> str_includes (message (Error ''Command failed: yt-dlp'')) ''No transcript found''"
    by (simp add: Error_def)
  from fallback_outcomes [OF q v p, where ytdlp = "Vtt_parsed (Some [])"]
       fallback_outcomes [OF q v p, where ytdlp = "Ytdlp_throws (Error ''Command failed: yt-dlp'')"]
       q v p empty msg
  show ?thesis
    by (simp add: innertube_attempt_def)
qed

text \<open>
  The case C1 (amended) leaves out. The outer \<open>catch\<close> answers 404 for a message
  that contains \<open>No transcript found\<close>, which is the message the fallback fetcher throws
  when the download leaves no subtitle file; but the handler replaces every exception of
  the fallback by \<open>Failed to fetch transcript from both sources.\<close> before the outer
  \<open>catch\<close> sees it, so the response is 500 in that case too.
\<close>

lemma missing_subtitle_file_response:
  assumes "truthy_string query_id = Some videoUrlOrId"
    and "truthy_string (extractVideoId newURL videoUrlOrId) = Some videoId"
    and "snd (innertube_attempt parseFloat innertube) = []"
  shows "handler newURL parseFloat query_id innertube No_vtt_file =
           \<lparr>status = 500,
            body = \<lparr>body_error = Some ''Failed to fetch transcript.'',
                    body_videoId = Some videoId, body_videoTitle = None,
                    body_transcript = None\<rparr>\<rparr>"
  using assms
  by (cases "innertube_attempt parseFloat innertube")
     (simp add: handler_def try_block_def catch_block_def fetchTranscriptWithYtDlp_def
        error_id_response_def Error_def)

text \<open>
  The variant without the fallback answers 200 only with the normalized raw segments
  without those whose text is empty.
\<close>

lemma ok_response_segments_part000:
  assumes "handler_part000 newURL parseFloat query_id innertube = response"
    and "status response = 200"
  shows "\<exists>title raw. innertube = Transcript_data title (Some raw) \<and>
           body_transcript (body response) =
             Some (filter (\<lambda>s. ts_text s \<noteq> []) (map (formatSegment_part000 parseFloat) raw))"
proof -
  have c: "status (catch_block_part000 err videoId) \<noteq> 200" for err videoId
    by (simp add: catch_block_part000_def status_200_cases)
  show ?thesis
    using assms
    by (auto simp: handler_part000_def try_block_part000_def status_200_cases c
        formatTranscript_def
        split: option.splits sum.splits innertube_outcome.splits)
qed

end
